theory Spec2Isabelle
  imports Main "HOL-Library.Sublist" "HOL-Library.AList"
begin

section \<open>Python values of the payload\<close>

text \<open>
  The payloads handled by \<^verbatim>\<open>calm/dsl/api/util.py\<close> are JSON documents held as Python
  objects: \<^verbatim>\<open>None\<close>, booleans, integers, strings, lists and dicts with string keys.
  A dict is an association list in insertion order; every operation below keeps the keys
  distinct, as a Python dict does. Floating point numbers are left out. The documents are
  trees: no object is reachable along two paths.
\<close>

datatype json =
    JNull
  | JBool bool
  | JInt int
  | JStr string
  | JList "json list"
  | JDict "(string \<times> json) list"

text \<open>The exceptions the modelled code can raise.\<close>

datatype py_error = KeyError | TypeError | AttributeError | IndexError | ValueError | BdbQuit | PyException

text \<open>An element of a path: a dict key or a list position.\<close>

datatype pelem = PKey string | PIdx int

type_synonym path = "pelem list"

definition ebind :: "py_error + 'a \<Rightarrow> ('a \<Rightarrow> py_error + 'b) \<Rightarrow> py_error + 'b" where
  "ebind m f = (case m of Inl e \<Rightarrow> Inl e | Inr x \<Rightarrow> f x)"

lemma ebind_Inl [simp]: "ebind (Inl e) f = Inl e"
  by (simp add: ebind_def)

lemma ebind_Inr [simp]: "ebind (Inr x) f = f x"
  by (simp add: ebind_def)

lemma ebind_cong [fundef_cong]:
  "m = m' \<Longrightarrow> (\<And>x. m' = Inr x \<Longrightarrow> f x = f' x) \<Longrightarrow> ebind m f = ebind m' f'"
  by (cases m') (simp_all add: ebind_def)

lemma ebind_eq_Inr:
  "ebind m f = Inr y \<longleftrightarrow> (\<exists>x. m = Inr x \<and> f x = Inr y)"
  by (cases m) simp_all

text \<open>Truth value of an object (\<^verbatim>\<open>if x\<close>, \<^verbatim>\<open>x or y\<close>, \<^verbatim>\<open>not x\<close>).\<close>

fun truthy :: "json \<Rightarrow> bool" where
  "truthy JNull = False"
| "truthy (JBool b) = b"
| "truthy (JInt i) = (i \<noteq> 0)"
| "truthy (JStr s) = (s \<noteq> [])"
| "truthy (JList xs) = (xs \<noteq> [])"
| "truthy (JDict kvs) = (kvs \<noteq> [])"

text \<open>\<^verbatim>\<open>x or d\<close>.\<close>

definition py_or :: "json \<Rightarrow> json \<Rightarrow> json" where
  "py_or x d = (if truthy x then x else d)"

text \<open>
  Python's \<^verbatim>\<open>==\<close>: a boolean equals the integer 0 or 1, lists compare element by
  element, dicts compare as mappings whatever the order of their keys.
\<close>

fun py_eq :: "json \<Rightarrow> json \<Rightarrow> bool"
  and py_eq_list :: "json list \<Rightarrow> json list \<Rightarrow> bool"
  and py_eq_dict :: "(string \<times> json) list \<Rightarrow> (string \<times> json) list \<Rightarrow> bool" where
  "py_eq JNull b = (b = JNull)"
| "py_eq (JBool x) b =
     (case b of JBool y \<Rightarrow> x = y | JInt j \<Rightarrow> j = (if x then 1 else 0) | _ \<Rightarrow> False)"
| "py_eq (JInt i) b =
     (case b of JInt j \<Rightarrow> i = j | JBool y \<Rightarrow> i = (if y then 1 else 0) | _ \<Rightarrow> False)"
| "py_eq (JStr s) b = (b = JStr s)"
| "py_eq (JList xs) b = (case b of JList ys \<Rightarrow> py_eq_list xs ys | _ \<Rightarrow> False)"
| "py_eq (JDict kvs) b =
     (case b of JDict kvs' \<Rightarrow> length kvs = length kvs' \<and> py_eq_dict kvs kvs' | _ \<Rightarrow> False)"
| "py_eq_list [] ys = (ys = [])"
| "py_eq_list (x # xs) ys =
     (case ys of [] \<Rightarrow> False | y # ys' \<Rightarrow> py_eq x y \<and> py_eq_list xs ys')"
| "py_eq_dict [] kvs' = True"
| "py_eq_dict ((k, v) # kvs) kvs' =
     (case map_of kvs' k of None \<Rightarrow> False | Some v' \<Rightarrow> py_eq v v' \<and> py_eq_dict kvs kvs')"

text \<open>Lists and dicts cannot be hashed, so they cannot be dict keys.\<close>

fun hashable :: "json \<Rightarrow> bool" where
  "hashable (JList xs) = False"
| "hashable (JDict kvs) = False"
| "hashable v = True"

text \<open>Position \<^verbatim>\<open>i\<close> of a sequence of length \<^verbatim>\<open>n\<close>: negative positions count from the end.\<close>

definition py_index :: "nat \<Rightarrow> int \<Rightarrow> nat option" where
  "py_index n i =
     (let j = (if i < 0 then int n + i else i)
      in if 0 \<le> j \<and> j < int n then Some (nat j) else None)"

text \<open>An integer used as a position: \<^verbatim>\<open>True\<close> and \<^verbatim>\<open>False\<close> are 1 and 0.\<close>

fun as_index :: "json \<Rightarrow> int option" where
  "as_index (JInt i) = Some i"
| "as_index (JBool b) = Some (if b then 1 else 0)"
| "as_index v = None"

text \<open>\<^verbatim>\<open>container[key]\<close>.\<close>

fun py_getitem :: "json \<Rightarrow> json \<Rightarrow> py_error + json" where
  "py_getitem (JDict kvs) k =
     (if \<not> hashable k then Inl TypeError
      else case k of
        JStr s \<Rightarrow> (case map_of kvs s of None \<Rightarrow> Inl KeyError | Some v \<Rightarrow> Inr v)
      | _ \<Rightarrow> Inl KeyError)"
| "py_getitem (JList xs) k =
     (case as_index k of
        None \<Rightarrow> Inl TypeError
      | Some i \<Rightarrow> (case py_index (length xs) i of None \<Rightarrow> Inl IndexError | Some n \<Rightarrow> Inr (xs ! n)))"
| "py_getitem (JStr s) k =
     (case as_index k of
        None \<Rightarrow> Inl TypeError
      | Some i \<Rightarrow> (case py_index (length s) i of None \<Rightarrow> Inl IndexError | Some n \<Rightarrow> Inr (JStr [s ! n])))"
| "py_getitem v k = Inl TypeError"

text \<open>\<^verbatim>\<open>key in container\<close>.\<close>

fun py_in :: "json \<Rightarrow> json \<Rightarrow> py_error + bool" where
  "py_in k (JDict kvs) =
     (if \<not> hashable k then Inl TypeError
      else case k of JStr s \<Rightarrow> Inr (map_of kvs s \<noteq> None) | _ \<Rightarrow> Inr False)"
| "py_in k (JList xs) = Inr (list_ex (\<lambda>x. py_eq x k) xs)"
| "py_in k (JStr s) = (case k of JStr t \<Rightarrow> Inr (sublist t s) | _ \<Rightarrow> Inl TypeError)"
| "py_in k v = Inl TypeError"

text \<open>\<^verbatim>\<open>obj.get(key, default)\<close> with a string key: only a dict has the method.\<close>

fun py_get :: "json \<Rightarrow> string \<Rightarrow> json \<Rightarrow> py_error + json" where
  "py_get (JDict kvs) k d = Inr (case map_of kvs k of None \<Rightarrow> d | Some v \<Rightarrow> v)"
| "py_get v k d = Inl AttributeError"

text \<open>
  \<^verbatim>\<open>obj[key] = value\<close> with a string key: a dict stores under the key (a new key goes
  last); a list takes positions only, and nothing else takes an assignment.
\<close>

fun py_setitem :: "json \<Rightarrow> string \<Rightarrow> json \<Rightarrow> py_error + json" where
  "py_setitem (JDict kvs) k v = Inr (JDict (AList.update k v kvs))"
| "py_setitem c k v = Inl TypeError"

definition pelem_json :: "pelem \<Rightarrow> json" where
  "pelem_json p = (case p of PKey s \<Rightarrow> JStr s | PIdx i \<Rightarrow> JInt i)"

text \<open>\<^verbatim>\<open>obj.pop(key)\<close> with a string key: the value and the dict without the key.\<close>

fun py_pop :: "json \<Rightarrow> string \<Rightarrow> py_error + (json \<times> json)" where
  "py_pop (JDict kvs) k =
     (case map_of kvs k of
        None \<Rightarrow> Inl KeyError
      | Some v \<Rightarrow> Inr (v, JDict (AList.delete k kvs)))"
| "py_pop (JList xs) k = Inl TypeError"
| "py_pop v k = Inl AttributeError"

text \<open>\<^verbatim>\<open>obj.pop(key, default)\<close> with a string key.\<close>

fun py_pop_default :: "json \<Rightarrow> string \<Rightarrow> json \<Rightarrow> py_error + (json \<times> json)" where
  "py_pop_default (JDict kvs) k d =
     (case map_of kvs k of
        None \<Rightarrow> Inr (d, JDict kvs)
      | Some v \<Rightarrow> Inr (v, JDict (AList.delete k kvs)))"
| "py_pop_default (JList xs) k d = Inl TypeError"
| "py_pop_default v k d = Inl AttributeError"

text \<open>
  \<^verbatim>\<open>for x in obj\<close>: a list gives its elements, a dict its keys, a string
  its characters; nothing else can be iterated.
\<close>

fun py_iter :: "json \<Rightarrow> py_error + json list" where
  "py_iter (JList xs) = Inr xs"
| "py_iter (JDict kvs) = Inr (map (\<lambda>kv. JStr (fst kv)) kvs)"
| "py_iter (JStr s) = Inr (map (\<lambda>c. JStr [c]) s)"
| "py_iter v = Inl TypeError"

text \<open>
  The code mutates objects in place. The model returns the changed object and stores it
  back where it was read: the elements of a list that was iterated, the value under a
  key that a dict holds, the object at a position of a path. An object that
  \<^verbatim>\<open>get\<close> made up as a default is not part of the document, so nothing is stored
  for it.
\<close>

definition iter_store :: "json \<Rightarrow> json list \<Rightarrow> json" where
  "iter_store orig xs = (case orig of JList ys \<Rightarrow> JList xs | _ \<Rightarrow> orig)"

definition store_back :: "json \<Rightarrow> string \<Rightarrow> json \<Rightarrow> json" where
  "store_back obj k v =
     (case obj of
        JDict kvs \<Rightarrow> (if map_of kvs k = None then obj else JDict (AList.update k v kvs))
      | _ \<Rightarrow> obj)"

definition put_item :: "json \<Rightarrow> pelem \<Rightarrow> json \<Rightarrow> json" where
  "put_item obj p v =
     (case (obj, p) of
        (JDict kvs, PKey k) \<Rightarrow> store_back obj k v
      | (JList xs, PIdx i) \<Rightarrow>
          (case py_index (length xs) i of None \<Rightarrow> obj | Some n \<Rightarrow> JList (xs[n := v]))
      | _ \<Rightarrow> obj)"

text \<open>
  The value at a location of a document: a dict is entered by a key it holds, a list by
  a position from 0 below its length. \<^verbatim>\<open>None\<close> when the document has no such
  location. \<^verbatim>\<open>write_at\<close> puts a value at a location that the document has.
\<close>

fun field_at :: "json \<Rightarrow> path \<Rightarrow> json option" where
  "field_at v [] = Some v"
| "field_at v (PKey k # ps) =
     (case v of
        JDict kvs \<Rightarrow> (case map_of kvs k of None \<Rightarrow> None | Some c \<Rightarrow> field_at c ps)
      | _ \<Rightarrow> None)"
| "field_at v (PIdx i # ps) =
     (case v of
        JList xs \<Rightarrow> (if 0 \<le> i \<and> i < int (length xs) then field_at (xs ! nat i) ps else None)
      | _ \<Rightarrow> None)"

fun write_at :: "path \<Rightarrow> json \<Rightarrow> json \<Rightarrow> json" where
  "write_at [] v doc = v"
| "write_at (e # ps) v doc =
     (case field_at doc [e] of None \<Rightarrow> doc | Some c \<Rightarrow> put_item doc e (write_at ps v c))"

text \<open>String concatenation \<^verbatim>\<open>s + x\<close>: \<^verbatim>\<open>x\<close> has to be a string.\<close>

definition str_add :: "string \<Rightarrow> json \<Rightarrow> py_error + string" where
  "str_add s x = (case x of JStr t \<Rightarrow> Inr (s @ t) | _ \<Rightarrow> Inl TypeError)"

text \<open>
  A loop over the elements of a list with their positions (\<^verbatim>\<open>enumerate\<close>), threading
  the state that the body changes; it stops at the first exception.
\<close>

fun eloop :: "(nat \<Rightarrow> json \<Rightarrow> 's \<Rightarrow> py_error + (json \<times> 's)) \<Rightarrow> nat \<Rightarrow> json list \<Rightarrow> 's
    \<Rightarrow> py_error + (json list \<times> 's)" where
  "eloop body i [] s = Inr ([], s)"
| "eloop body i (x # xs) s =
     ebind (body i x s) (\<lambda>(x', s').
     ebind (eloop body (Suc i) xs s') (\<lambda>(xs', s''). Inr (x' # xs', s'')))"

section \<open>Secret map\<close>

text \<open>
  \<^verbatim>\<open>secret_map\<close> is a dict whose keys are the names found in the document: any
  hashable value. Keys are compared with \<^verbatim>\<open>==\<close>; a new key goes last. The same
  operations serve the dicts that \<^verbatim>\<open>strip_patch_config_tasks\<close> builds.
\<close>

type_synonym smap = "(json \<times> json) list"

fun sm_lookup :: "(json \<times> 'a) list \<Rightarrow> json \<Rightarrow> 'a option" where
  "sm_lookup [] k = None"
| "sm_lookup ((k', v) # kvs) k = (if py_eq k' k then Some v else sm_lookup kvs k)"

fun sm_update :: "json \<Rightarrow> 'a \<Rightarrow> (json \<times> 'a) list \<Rightarrow> (json \<times> 'a) list" where
  "sm_update k v [] = [(k, v)]"
| "sm_update k v ((k', v') # kvs) =
     (if py_eq k' k then (k', v) # kvs else (k', v') # sm_update k v kvs)"

definition sm_in :: "json \<Rightarrow> (json \<times> 'a) list \<Rightarrow> py_error + bool" where
  "sm_in k sm = (if \<not> hashable k then Inl TypeError else Inr (sm_lookup sm k \<noteq> None))"

definition sm_get :: "(json \<times> 'a) list \<Rightarrow> json \<Rightarrow> py_error + 'a" where
  "sm_get sm k =
     (if \<not> hashable k then Inl TypeError
      else case sm_lookup sm k of None \<Rightarrow> Inl KeyError | Some v \<Rightarrow> Inr v)"

definition sm_set :: "(json \<times> 'a) list \<Rightarrow> json \<Rightarrow> 'a \<Rightarrow> py_error + (json \<times> 'a) list" where
  "sm_set sm k v = (if \<not> hashable k then Inl TypeError else Inr (sm_update k v sm))"

text \<open>The position of the entry that a key finds.\<close>

fun sm_position :: "(json \<times> 'a) list \<Rightarrow> json \<Rightarrow> nat option" where
  "sm_position [] k = None"
| "sm_position ((k', v) # kvs) k =
     (if py_eq k' k then Some 0 else map_option Suc (sm_position kvs k))"

section \<open>patch_secrets\<close>

text \<open>
  The walk of \<^verbatim>\<open>patch_secrets\<close> along one path (\<^verbatim>\<open>for sub_path in path: ... else: ...\<close>).
  \<^verbatim>\<open>None\<close> is the \<^verbatim>\<open>break\<close>: a dict on the way lacks the next key. Otherwise
  \<^verbatim>\<open>f\<close>, the \<^verbatim>\<open>else\<close> branch, changes the object the path leads to, and the
  changed object is stored back along the path.
\<close>

definition is_dict :: "json \<Rightarrow> bool" where
  "is_dict v = (case v of JDict kvs \<Rightarrow> True | _ \<Rightarrow> False)"

definition has_key :: "json \<Rightarrow> pelem \<Rightarrow> bool" where
  "has_key v p =
     (case v of
        JDict kvs \<Rightarrow> (case p of PKey s \<Rightarrow> map_of kvs s \<noteq> None | PIdx i \<Rightarrow> False)
      | _ \<Rightarrow> False)"

fun walk_apply :: "(json \<Rightarrow> py_error + json) \<Rightarrow> path \<Rightarrow> json \<Rightarrow> py_error + json option" where
  "walk_apply f [] v = ebind (f v) (\<lambda>v'. Inr (Some v'))"
| "walk_apply f (p # ps) v =
     (if is_dict v \<and> \<not> has_key v p then Inr None
      else ebind (py_getitem v (pelem_json p)) (\<lambda>c.
           ebind (walk_apply f ps c) (\<lambda>r.
             case r of
               None \<Rightarrow> Inr None
             | Some c' \<Rightarrow> Inr (Some (put_item v p c')))))"

definition mark_unmodified :: "json \<Rightarrow> py_error + json" where
  "mark_unmodified variable =
     py_setitem variable ''attrs'' (JDict [(''is_secret_modified'', JBool False)])"

definition attach_secret :: "json \<Rightarrow> json \<Rightarrow> py_error + json" where
  "attach_secret secret variable =
     ebind (py_setitem variable ''attrs'' (JDict [(''is_secret_modified'', JBool True)]))
       (\<lambda>variable'. py_setitem variable' ''value'' secret)"

text \<open>
  \<^verbatim>\<open>cred["secret"] = secret_map[name]\<close> and \<^verbatim>\<open>auth["password"] = secret_map[username]\<close>
  store the object that \<^verbatim>\<open>secret_map\<close> holds, not a copy of it: every credential
  of that name, and the endpoint whose user has that name, hold one and the same object.
  \<^verbatim>\<open>shared\<close> lists the locations of the document that hold an object of
  \<^verbatim>\<open>secret_map\<close>, each with the position of its entry. A write into such an object
  is seen at every location that holds it: after a walk has written, \<^verbatim>\<open>share\<close>
  looks for a shared location whose content the walk has changed and puts the changed
  object at all the locations of the same entry. The walks write the keys
  \<^verbatim>\<open>attrs\<close> and \<^verbatim>\<open>value\<close> of one object, so they never replace what a credential
  holds under \<^verbatim>\<open>secret\<close> or the endpoint under \<^verbatim>\<open>password\<close>. The objects that
  the caller passes in (\<^verbatim>\<open>resources\<close>, the values of \<^verbatim>\<open>secret_map\<close>, the secrets
  of the entries) are taken to share nothing with one another. The model returns the
  document; that the caller's \<^verbatim>\<open>secret_map\<close> sees the same writes is left out.
\<close>

type_synonym shared = "(nat \<times> path) list"

definition share :: "shared \<Rightarrow> json \<Rightarrow> json \<Rightarrow> json" where
  "share sh before after =
     (case find (\<lambda>(j, l). field_at after l \<noteq> field_at before l) sh of
        None \<Rightarrow> after
      | Some (j, l) \<Rightarrow>
          (case field_at after l of
             None \<Rightarrow> after
           | Some v \<Rightarrow> fold (\<lambda>(j', l') doc. if j' = j then write_at l' v doc else doc) sh after))"

definition holds_entry :: "smap \<Rightarrow> json \<Rightarrow> path \<Rightarrow> shared \<Rightarrow> shared" where
  "holds_entry secret_map name l sh =
     (case sm_position secret_map name of None \<Rightarrow> sh | Some j \<Rightarrow> sh @ [(j, l)])"

fun patch_existing :: "shared \<Rightarrow> (path \<times> json) list \<Rightarrow> json \<Rightarrow> py_error + json" where
  "patch_existing sh [] resources = Inr resources"
| "patch_existing sh ((path, secret) # rest) resources =
     ebind (walk_apply mark_unmodified path resources) (\<lambda>r.
       patch_existing sh rest
         (case r of None \<Rightarrow> resources | Some resources' \<Rightarrow> share sh resources resources'))"

fun patch_variables :: "shared \<Rightarrow> (path \<times> json \<times> json) list \<Rightarrow> json \<Rightarrow> py_error + json" where
  "patch_variables sh [] resources = Inr resources"
| "patch_variables sh ((path, secret, name) # rest) resources =
     ebind (walk_apply (attach_secret secret) path resources) (\<lambda>r.
       patch_variables sh rest
         (case r of None \<Rightarrow> resources | Some resources' \<Rightarrow> share sh resources resources'))"

definition patch_cred :: "smap \<Rightarrow> nat \<Rightarrow> json \<Rightarrow> shared \<Rightarrow> py_error + (json \<times> shared)" where
  "patch_cred secret_map i cred sh =
     ebind (py_getitem cred (JStr ''name'')) (\<lambda>name.
     ebind (sm_in name secret_map) (\<lambda>b.
       if b then
         ebind (sm_get secret_map name) (\<lambda>s.
         ebind (py_setitem cred ''secret'' s) (\<lambda>cred'.
           Inr (cred',
                holds_entry secret_map name
                  [PKey ''credential_definition_list'', PIdx (int i), PKey ''secret''] sh)))
       else Inr (cred, sh)))"

definition patch_auth :: "smap \<Rightarrow> json \<Rightarrow> shared \<Rightarrow> py_error + (json \<times> shared)" where
  "patch_auth secret_map auth sh =
     ebind (py_get auth ''username'' (JStr [])) (\<lambda>username.
       if truthy username then
         ebind (sm_in username secret_map) (\<lambda>b.
           if b then
             ebind (sm_get secret_map username) (\<lambda>s.
             ebind (py_setitem auth ''password'' s) (\<lambda>auth'.
               Inr (auth',
                    holds_entry secret_map username
                      [PKey ''authentication'', PKey ''password''] sh)))
           else Inr (auth, sh))
       else Inr (auth, sh))"

text \<open>The first two steps of \<^verbatim>\<open>patch_secrets\<close>: credentials and endpoint (lines 468 to 479).\<close>

definition patch_credentials :: "smap \<Rightarrow> json \<Rightarrow> py_error + (json \<times> shared)" where
  "patch_credentials secret_map resources =
     ebind (py_get resources ''credential_definition_list'' (JList [])) (\<lambda>creds.
     ebind (py_iter creds) (\<lambda>cs.
     ebind (eloop (patch_cred secret_map) 0 cs []) (\<lambda>(cs', sh).
     let resources1 = store_back resources ''credential_definition_list'' (iter_store creds cs') in
     ebind (py_get resources1 ''authentication'' (JDict [])) (\<lambda>auth.
     ebind (patch_auth secret_map auth sh) (\<lambda>(auth', sh').
       Inr (store_back resources1 ''authentication'' auth', sh'))))))"

definition patch_secrets :: "json \<Rightarrow> smap \<Rightarrow> (path \<times> json \<times> json) list \<Rightarrow> (path \<times> json) list
    \<Rightarrow> py_error + json" where
  "patch_secrets resources secret_map secret_variables existing_secrets =
     ebind (patch_credentials secret_map resources) (\<lambda>(resources2, sh).
     ebind (patch_existing sh existing_secrets resources2) (\<lambda>resources3.
       if secret_variables \<noteq> [] then patch_variables sh secret_variables resources3
       else Inr resources3))"

section \<open>strip_secrets\<close>

text \<open>
  What \<^verbatim>\<open>strip_secrets\<close> collects outside the document: the lists
  \<^verbatim>\<open>secret_variables\<close>, of entries (path, value, name), and
  \<^verbatim>\<open>not_stripped_secrets\<close>, of entries (path, value).
\<close>

record collected =
  acc_secret_variables :: "(path \<times> json \<times> json) list"
  acc_not_stripped :: "(path \<times> json) list"

definition add_secret_variable :: "path \<Rightarrow> json \<Rightarrow> json \<Rightarrow> collected \<Rightarrow> collected" where
  "add_secret_variable p v n acc =
     acc\<lparr>acc_secret_variables := acc_secret_variables acc @ [(p, v, n)]\<rparr>"

definition add_not_stripped :: "path \<Rightarrow> json \<Rightarrow> collected \<Rightarrow> collected" where
  "add_not_stripped p v acc = acc\<lparr>acc_not_stripped := acc_not_stripped acc @ [(p, v)]\<rparr>"

definition get_secrets_from_context :: "json \<Rightarrow> string \<Rightarrow> py_error + json" where
  "get_secrets_from_context decompiled_secrets context =
     ebind (py_in (JStr context) decompiled_secrets) (\<lambda>b.
       if b then py_get decompiled_secrets context (JDict []) else Inr (JDict []))"

definition is_secret_modified :: "json \<Rightarrow> json \<Rightarrow> json \<Rightarrow> py_error + bool" where
  "is_secret_modified filtered_secrets name value =
     ebind (py_in name filtered_secrets) (\<lambda>b.
       if b then
         ebind (py_getitem filtered_secrets name) (\<lambda>recorded. Inr (\<not> py_eq recorded value))
       else Inr True)"

text \<open>The placeholders written where a secret was taken out.\<close>

definition cred_placeholder :: json where
  "cred_placeholder =
     JDict [(''attrs'', JDict [(''is_secret_modified'', JBool False), (''secret_reference'', JNull)])]"

definition endpoint_placeholder :: json where
  "endpoint_placeholder =
     JDict [(''attrs'', JDict [(''is_secret_modified'', JBool False), (''value'', JNull)])]"

definition variable_attrs_placeholder :: json where
  "variable_attrs_placeholder =
     JDict [(''is_secret_modified'', JBool False), (''secret_reference'', JNull)]"

definition options_password_placeholder :: json where
  "options_password_placeholder =
     JDict [(''value'', JNull), (''attrs'', JDict [(''is_secret_modified'', JBool False)])]"

definition task_password_placeholder :: json where
  "task_password_placeholder =
     JDict [(''attrs'', JDict [(''is_secret_modified'', JBool False), (''secret_reference'', JNull)])]"

definition auth_password_placeholder :: json where
  "auth_password_placeholder = JDict [(''attrs'', JDict [(''is_secret_modified'', JBool False)])]"

text \<open>The body of the loop over \<^verbatim>\<open>credential_definition_list\<close> (lines 64 to 74).\<close>

definition strip_cred :: "json \<Rightarrow> nat \<Rightarrow> json \<Rightarrow> smap \<Rightarrow> py_error + (json \<times> smap)" where
  "strip_cred filtered i cred secret_map =
     ebind (py_getitem cred (JStr ''name'')) (\<lambda>name.
     ebind (py_getitem cred (JStr ''secret'')) (\<lambda>secret.
     ebind (py_getitem secret (JStr ''value'')) (\<lambda>value.
     ebind (is_secret_modified filtered name value) (\<lambda>m.
       if m then
         ebind (py_pop_default cred ''secret'' (JDict [])) (\<lambda>(s, cred1).
         ebind (sm_set secret_map name s) (\<lambda>secret_map'.
         ebind (py_setitem cred1 ''secret'' cred_placeholder) (\<lambda>cred2.
           Inr (cred2, secret_map'))))
       else Inr (cred, secret_map)))))"

definition strip_credentials :: "json \<Rightarrow> json \<Rightarrow> smap \<Rightarrow> py_error + (json \<times> smap)" where
  "strip_credentials decompiled_secrets resources secret_map =
     ebind (py_get resources ''credential_definition_list'' (JList [])) (\<lambda>raw.
     ebind (get_secrets_from_context decompiled_secrets ''credential_definition_list'') (\<lambda>filtered.
     ebind (py_iter (py_or raw (JList []))) (\<lambda>creds.
     ebind (eloop (strip_cred filtered) 0 creds secret_map) (\<lambda>(creds', secret_map').
       Inr (store_back resources ''credential_definition_list'' (iter_store raw creds'),
            secret_map')))))"

text \<open>The credentials of an HTTP endpoint (lines 76 to 88).\<close>

definition strip_endpoint_auth :: "json \<Rightarrow> json \<Rightarrow> smap \<Rightarrow> py_error + (json \<times> smap)" where
  "strip_endpoint_auth filtered auth secret_map =
     ebind (py_get auth ''type'' JNull) (\<lambda>t.
       if py_eq t (JStr ''basic'') then
         ebind (py_getitem auth (JStr ''username'')) (\<lambda>username.
         ebind (py_getitem auth (JStr ''password'')) (\<lambda>password.
         ebind (is_secret_modified filtered username password) (\<lambda>m.
           if m then
             ebind (py_getitem auth (JStr ''username'')) (\<lambda>name.
             ebind (py_pop_default auth ''password'' (JDict [])) (\<lambda>(p, auth1).
             ebind (sm_set secret_map name p) (\<lambda>secret_map'.
             ebind (py_setitem auth1 ''password'' endpoint_placeholder) (\<lambda>auth2.
               Inr (auth2, secret_map')))))
           else Inr (auth, secret_map))))
       else Inr (auth, secret_map))"

definition strip_endpoint :: "json \<Rightarrow> json \<Rightarrow> smap \<Rightarrow> py_error + (json \<times> smap)" where
  "strip_endpoint decompiled_secrets resources secret_map =
     ebind (get_secrets_from_context decompiled_secrets ''authentication'') (\<lambda>filtered.
     ebind (py_get resources ''authentication'' (JDict [])) (\<lambda>raw.
     ebind (strip_endpoint_auth filtered (py_or raw (JDict [])) secret_map) (\<lambda>(auth', secret_map').
       Inr (if truthy raw then store_back resources ''authentication'' auth' else resources,
            secret_map'))))"

text \<open>
  \<^verbatim>\<open>strip_entity_secret_variables\<close>, the body of its loop in two parts: the
  \<^verbatim>\<open>SECRET\<close> value of a variable (lines 105 to 125), and the basic authentication of
  the HTTP task of a dynamic variable (lines 126 to 156).
\<close>

definition strip_secret_value :: "json \<Rightarrow> path \<Rightarrow> json \<Rightarrow> collected \<Rightarrow> py_error + (json \<times> collected)" where
  "strip_secret_value filtered p variable acc =
     ebind (py_get variable ''name'' JNull) (\<lambda>name.
     ebind (py_get variable ''value'' JNull) (\<lambda>value.
     ebind (is_secret_modified filtered name value) (\<lambda>m.
       if m then
         ebind (py_pop variable ''value'') (\<lambda>(v, variable1).
         ebind (py_get variable1 ''name'' JNull) (\<lambda>name'.
         ebind (py_setitem variable1 ''attrs'' variable_attrs_placeholder) (\<lambda>variable2.
           Inr (variable2, add_secret_variable p v name' acc))))
       else if truthy value then
         ebind (py_getitem variable (JStr ''value'')) (\<lambda>v.
           Inr (variable, add_not_stripped p v acc))
       else Inr (variable, acc))))"

definition strip_options_auth :: "path \<Rightarrow> json \<Rightarrow> collected \<Rightarrow> py_error + (json \<times> collected)" where
  "strip_options_auth p variable acc =
     ebind (py_get variable ''options'' JNull) (\<lambda>opts.
       if truthy opts then
         ebind (py_get opts ''attrs'' JNull) (\<lambda>attrs.
           if truthy attrs then
             ebind (py_get attrs ''authentication'' JNull) (\<lambda>auth.
               if truthy auth then
                 ebind (py_get auth ''auth_type'' JNull) (\<lambda>auth_type.
                   if py_eq auth_type (JStr ''basic'') then
                     ebind (py_get auth ''basic_auth'' JNull) (\<lambda>basic_auth.
                     ebind (py_get basic_auth ''username'' JNull) (\<lambda>username.
                     ebind (py_pop basic_auth ''password'') (\<lambda>(password, basic_auth1).
                     ebind (py_get password ''value'' JNull) (\<lambda>v.
                     ebind (py_setitem basic_auth1 ''password'' options_password_placeholder)
                       (\<lambda>basic_auth2.
                       Inr (store_back variable ''options''
                              (store_back opts ''attrs''
                                (store_back attrs ''authentication''
                                  (store_back auth ''basic_auth'' basic_auth2))),
                            add_secret_variable
                              (p @ [PKey ''options'', PKey ''attrs'', PKey ''authentication'',
                                    PKey ''basic_auth'', PKey ''password''])
                              v username acc))))))
                   else Inr (variable, acc))
               else Inr (variable, acc))
           else Inr (variable, acc))
       else Inr (variable, acc))"

definition strip_variable :: "json \<Rightarrow> path \<Rightarrow> string \<Rightarrow> nat \<Rightarrow> json \<Rightarrow> collected
    \<Rightarrow> py_error + (json \<times> collected)" where
  "strip_variable filtered path_list field_name var_idx variable acc =
     (let p = path_list @ [PKey field_name, PIdx (int var_idx)] in
      ebind (py_getitem variable (JStr ''type'')) (\<lambda>t.
      ebind (if py_eq t (JStr ''SECRET'') then strip_secret_value filtered p variable acc
             else Inr (variable, acc)) (\<lambda>(variable1, acc1).
        strip_options_auth p variable1 acc1)))"

definition entity_context :: "json \<Rightarrow> string \<Rightarrow> string \<Rightarrow> py_error + string" where
  "entity_context obj field_name context =
     (if field_name \<noteq> ''headers'' then
        ebind (py_get obj ''name'' JNull) (\<lambda>n.
          if truthy n then
            ebind (py_getitem obj (JStr ''name'')) (\<lambda>n'.
            ebind (str_add (context @ ''.'') n') (\<lambda>s. Inr (s @ ''.'' @ field_name)))
          else Inr context)
      else Inr context)"

definition strip_entity_secret_variables :: "json \<Rightarrow> path \<Rightarrow> json \<Rightarrow> string \<Rightarrow> string \<Rightarrow> collected
    \<Rightarrow> py_error + (json \<times> collected)" where
  "strip_entity_secret_variables decompiled_secrets path_list obj field_name context acc =
     ebind (entity_context obj field_name context) (\<lambda>context'.
     ebind (get_secrets_from_context decompiled_secrets context') (\<lambda>filtered.
     ebind (py_get obj field_name (JList [])) (\<lambda>raw.
     ebind (py_iter (py_or raw (JList []))) (\<lambda>variables.
     ebind (eloop (strip_variable filtered path_list field_name) 0 variables acc)
       (\<lambda>(variables', acc').
       Inr (store_back obj field_name (iter_store raw variables'), acc'))))))"

text \<open>\<^verbatim>\<open>strip_authentication_secret_variables\<close> (lines 317 to 347).\<close>

definition auth_password_path :: "path \<Rightarrow> path" where
  "auth_password_path path_list =
     path_list @ [PKey ''authentication'', PKey ''basic_auth'', PKey ''password'']"

definition strip_authentication_secret_variables :: "json \<Rightarrow> path \<Rightarrow> json \<Rightarrow> string \<Rightarrow> collected
    \<Rightarrow> py_error + (json \<times> collected)" where
  "strip_authentication_secret_variables decompiled_secrets path_list obj context acc =
     ebind (py_get obj ''name'' (JStr [])) (\<lambda>n.
     ebind (str_add (context @ ''.'') n) (\<lambda>s.
     ebind (get_secrets_from_context decompiled_secrets (s @ ''.basic_auth'')) (\<lambda>filtered.
     ebind (py_get obj ''authentication'' (JDict [])) (\<lambda>auth.
     ebind (py_get auth ''auth_type'' JNull) (\<lambda>auth_type.
       if py_eq auth_type (JStr ''basic'') then
         ebind (py_get auth ''password'' (JDict [])) (\<lambda>pw.
         ebind (py_get pw ''name'' JNull) (\<lambda>name.
         ebind (py_get pw ''value'' JNull) (\<lambda>value.
         ebind (is_secret_modified filtered name value) (\<lambda>m.
           if m then
             ebind (py_getitem auth (JStr ''password'')) (\<lambda>pw1.
             ebind (py_pop pw1 ''value'') (\<lambda>(v, pw2).
             ebind (py_get pw2 ''name'' JNull) (\<lambda>name'.
             ebind (py_setitem auth ''password'' auth_password_placeholder) (\<lambda>auth'.
               Inr (store_back obj ''authentication'' auth',
                    add_secret_variable (auth_password_path path_list) v name' acc)))))
           else
             ebind (py_get auth ''password'' JNull) (\<lambda>pw3.
             ebind (py_get pw3 ''value'' JNull) (\<lambda>v3.
               if truthy v3 then
                 ebind (py_getitem auth (JStr ''password'')) (\<lambda>pw4.
                 ebind (py_getitem pw4 (JStr ''value'')) (\<lambda>v4.
                   Inr (obj, add_not_stripped (auth_password_path path_list) v4 acc)))
               else Inr (obj, acc)))))))
       else Inr (obj, acc))))))"

text \<open>
  \<^verbatim>\<open>strip_action_secret_variables\<close> (lines 158 to 271). First the basic
  authentication of one HTTP task of an action's runbook (lines 194 to 252), then the
  body of the loop over the tasks, then the body of the loop over the actions, which
  says whether it left the function (\<^verbatim>\<open>return\<close> at line 168).
\<close>

definition action_task_path :: "path \<Rightarrow> nat \<Rightarrow> nat \<Rightarrow> path" where
  "action_task_path path_list action_idx task_idx =
     path_list @ [PKey ''action_list'', PIdx (int action_idx), PKey ''runbook'',
                  PKey ''task_definition_list'', PIdx (int task_idx), PKey ''attrs'']"

definition basic_auth_password_path :: "path \<Rightarrow> path" where
  "basic_auth_password_path p = p @ [PKey ''authentication'', PKey ''basic_auth'', PKey ''password'']"

definition strip_task_basic_auth :: "json \<Rightarrow> path \<Rightarrow> string \<Rightarrow> json \<Rightarrow> collected
    \<Rightarrow> py_error + (json \<times> collected)" where
  "strip_task_basic_auth decompiled_secrets p context auth acc =
     ebind (get_secrets_from_context decompiled_secrets context) (\<lambda>filtered.
     ebind (py_get auth ''basic_auth'' (JDict [])) (\<lambda>ba.
     ebind (py_get ba ''username'' JNull) (\<lambda>username.
     ebind (py_get ba ''password'' (JDict [])) (\<lambda>pw.
     ebind (py_get pw ''value'' JNull) (\<lambda>value.
     ebind (is_secret_modified filtered username value) (\<lambda>m.
       if m then
         ebind (py_getitem auth (JStr ''basic_auth'')) (\<lambda>ba1.
         ebind (py_getitem ba1 (JStr ''password'')) (\<lambda>pw1.
         ebind (py_pop pw1 ''value'') (\<lambda>(v, pw2).
         ebind (py_get ba1 ''username'' JNull) (\<lambda>username'.
         ebind (py_setitem ba1 ''password'' task_password_placeholder) (\<lambda>ba2.
           Inr (store_back auth ''basic_auth'' ba2, add_secret_variable p v username' acc))))))
       else
         ebind (py_get auth ''basic_auth'' JNull) (\<lambda>ba3.
         ebind (py_get ba3 ''password'' JNull) (\<lambda>pw3.
         ebind (py_get pw3 ''value'' JNull) (\<lambda>v3.
           if truthy v3 then
             ebind (py_getitem auth (JStr ''basic_auth'')) (\<lambda>ba4.
             ebind (py_getitem ba4 (JStr ''password'')) (\<lambda>pw4.
             ebind (py_getitem pw4 (JStr ''value'')) (\<lambda>v4.
               Inr (auth, add_not_stripped p v4 acc))))
           else Inr (auth, acc))))))))))"

definition strip_task_headers :: "json \<Rightarrow> path \<Rightarrow> string \<Rightarrow> json \<Rightarrow> collected
    \<Rightarrow> py_error + (json \<times> collected)" where
  "strip_task_headers decompiled_secrets p context task acc =
     ebind (py_get task ''attrs'' (JDict [])) (\<lambda>attrs_raw.
     ebind (py_get (py_or attrs_raw (JDict [])) ''headers'' (JList [])) (\<lambda>headers.
       if truthy headers then
         ebind (py_getitem task (JStr ''attrs'')) (\<lambda>attrs.
         ebind (strip_entity_secret_variables decompiled_secrets p attrs ''headers'' context acc)
           (\<lambda>(attrs', acc'). Inr (store_back task ''attrs'' attrs', acc')))
       else Inr (task, acc)))"

definition strip_action_task :: "json \<Rightarrow> path \<Rightarrow> nat \<Rightarrow> string \<Rightarrow> nat \<Rightarrow> json \<Rightarrow> collected
    \<Rightarrow> py_error + (json \<times> collected)" where
  "strip_action_task decompiled_secrets path_list action_idx context task_idx task acc =
     ebind (py_get task ''type'' JNull) (\<lambda>t.
       if \<not> py_eq t (JStr ''HTTP'') then Inr (task, acc)
       else
         ebind (py_get task ''attrs'' (JDict [])) (\<lambda>attrs_raw.
         ebind (py_get (py_or attrs_raw (JDict [])) ''authentication'' (JDict [])) (\<lambda>auth_raw.
         ebind (py_getitem task (JStr ''name'')) (\<lambda>task_name.
         ebind (str_add (context @ ''.'') task_name) (\<lambda>name_context.
         ebind (py_get (py_or auth_raw (JDict [])) ''auth_type'' JNull) (\<lambda>auth_type.
         ebind (if py_eq auth_type (JStr ''basic'') then
                  ebind (strip_task_basic_auth decompiled_secrets
                           (basic_auth_password_path (action_task_path path_list action_idx task_idx))
                           (name_context @ ''.basic_auth'') (py_or auth_raw (JDict [])) acc)
                    (\<lambda>(auth', acc').
                      Inr (store_back task ''attrs''
                             (store_back attrs_raw ''authentication'' auth'), acc'))
                else Inr (task, acc)) (\<lambda>(task1, acc1).
           strip_task_headers decompiled_secrets (action_task_path path_list action_idx task_idx)
             (name_context @ ''.headers'') task1 acc1)))))))"

definition strip_action :: "json \<Rightarrow> path \<Rightarrow> string \<Rightarrow> nat \<Rightarrow> json \<Rightarrow> collected
    \<Rightarrow> py_error + (bool \<times> json \<times> collected)" where
  "strip_action decompiled_secrets path_list context action_idx action acc =
     ebind (py_getitem action (JStr ''name'')) (\<lambda>action_name.
     ebind (str_add (context @ ''.'') action_name) (\<lambda>var_context.
     ebind (py_get action ''runbook'' (JDict [])) (\<lambda>runbook_raw.
       if \<not> truthy (py_or runbook_raw (JDict [])) then Inr (True, action, acc)
       else
         ebind (strip_entity_secret_variables decompiled_secrets
                  (path_list @ [PKey ''action_list'', PIdx (int action_idx), PKey ''runbook''])
                  runbook_raw ''variable_list'' (var_context @ ''.runbook'') acc) (\<lambda>(runbook1, acc1).
         ebind (py_get runbook1 ''task_definition_list'' (JList [])) (\<lambda>tasks.
         ebind (py_getitem runbook1 (JStr ''name'')) (\<lambda>runbook_name.
         ebind (str_add (var_context @ ''.runbook'' @ ''.'') runbook_name) (\<lambda>s.
         ebind (py_iter tasks) (\<lambda>ts.
         ebind (eloop (strip_action_task decompiled_secrets path_list action_idx
                         (s @ ''.task_definition_list'')) 0 ts acc1) (\<lambda>(ts', acc2).
           Inr (False,
                store_back action ''runbook''
                  (store_back runbook1 ''task_definition_list'' (iter_store tasks ts')),
                acc2))))))))))"

fun strip_actions :: "json \<Rightarrow> path \<Rightarrow> string \<Rightarrow> nat \<Rightarrow> json list \<Rightarrow> collected
    \<Rightarrow> py_error + (json list \<times> collected)" where
  "strip_actions decompiled_secrets path_list context i [] acc = Inr ([], acc)"
| "strip_actions decompiled_secrets path_list context i (action # rest) acc =
     ebind (strip_action decompiled_secrets path_list context i action acc) (\<lambda>(returned, action', acc').
       if returned then Inr (action' # rest, acc')
       else ebind (strip_actions decompiled_secrets path_list context (Suc i) rest acc')
              (\<lambda>(rest', acc''). Inr (action' # rest', acc'')))"

text \<open>\<^verbatim>\<open>path_list[0] + "."\<close>: the first element of the path has to be a string.\<close>

fun path_root :: "path \<Rightarrow> py_error + string" where
  "path_root [] = Inl IndexError"
| "path_root (PKey s # ps) = Inr s"
| "path_root (PIdx i # ps) = Inl TypeError"

definition strip_action_secret_variables :: "json \<Rightarrow> path \<Rightarrow> json \<Rightarrow> collected
    \<Rightarrow> py_error + (json \<times> collected)" where
  "strip_action_secret_variables decompiled_secrets path_list obj acc =
     ebind (path_root path_list) (\<lambda>root.
     ebind (py_getitem obj (JStr ''name'')) (\<lambda>n.
     ebind (str_add (root @ ''.'') n) (\<lambda>s.
     ebind (py_get obj ''action_list'' (JList [])) (\<lambda>raw.
     ebind (py_iter (py_or raw (JList []))) (\<lambda>actions.
     ebind (strip_actions decompiled_secrets path_list (s @ ''.action_list'') 0 actions acc)
       (\<lambda>(actions', acc').
       Inr (store_back obj ''action_list'' (iter_store raw actions'), acc')))))))"

text \<open>\<^verbatim>\<open>strip_runbook_secret_variables\<close> (lines 273 to 315): the body of its loop.\<close>

definition runbook_task_path :: "path \<Rightarrow> nat \<Rightarrow> path" where
  "runbook_task_path path_list task_idx =
     path_list @ [PKey ''task_definition_list'', PIdx (int task_idx), PKey ''attrs'']"

definition strip_runbook_task :: "json \<Rightarrow> path \<Rightarrow> string \<Rightarrow> nat \<Rightarrow> json \<Rightarrow> collected
    \<Rightarrow> py_error + (json \<times> collected)" where
  "strip_runbook_task decompiled_secrets original_path_list context task_idx task acc =
     ebind (py_get task ''type'' JNull) (\<lambda>t.
       if py_eq t (JStr ''RT_OPERATION'') then
         ebind (py_getitem task (JStr ''attrs'')) (\<lambda>attrs.
         ebind (strip_entity_secret_variables decompiled_secrets
                  (runbook_task_path original_path_list task_idx) attrs ''inarg_list'' [] acc)
           (\<lambda>(attrs', acc'). Inr (store_back task ''attrs'' attrs', acc')))
       else if \<not> py_eq t (JStr ''HTTP'') then Inr (task, acc)
       else
         ebind (py_get task ''attrs'' (JDict [])) (\<lambda>attrs_raw.
         ebind (py_get (py_or attrs_raw (JDict [])) ''authentication'' (JDict [])) (\<lambda>auth_raw.
         ebind (py_get (py_or auth_raw (JDict [])) ''auth_type'' JNull) (\<lambda>auth_type.
         let path_list =
               runbook_task_path
                 (if py_eq auth_type (JStr ''basic'') then original_path_list @ [PKey ''runbook'']
                  else original_path_list) task_idx in
         ebind (py_getitem task (JStr ''name'')) (\<lambda>task_name.
         ebind (str_add (context @ ''.'') task_name) (\<lambda>var_task_context.
         ebind (strip_authentication_secret_variables decompiled_secrets path_list
                  (py_or attrs_raw (JDict [])) var_task_context acc) (\<lambda>(attrs', acc1).
         let task1 = (if truthy attrs_raw then store_back task ''attrs'' attrs' else task) in
         ebind (py_get task1 ''attrs'' (JDict [])) (\<lambda>attrs_raw2.
         ebind (py_get (py_or attrs_raw2 (JDict [])) ''headers'' (JList [])) (\<lambda>headers.
           if \<not> truthy headers then Inr (task1, acc1)
           else
             ebind (py_getitem task1 (JStr ''attrs'')) (\<lambda>attrs2.
             ebind (strip_entity_secret_variables decompiled_secrets path_list attrs2 ''headers''
                      (var_task_context @ ''.headers'') acc1)
               (\<lambda>(attrs3, acc2). Inr (store_back task1 ''attrs'' attrs3, acc2))))))))))))"

definition strip_runbook_secret_variables :: "json \<Rightarrow> path \<Rightarrow> json \<Rightarrow> collected
    \<Rightarrow> py_error + (json \<times> collected)" where
  "strip_runbook_secret_variables decompiled_secrets path_list obj acc =
     ebind (path_root path_list) (\<lambda>root.
     ebind (py_getitem obj (JStr ''name'')) (\<lambda>n.
     ebind (str_add (root @ ''.'') n) (\<lambda>s.
     ebind (py_get obj ''task_definition_list'' (JList [])) (\<lambda>tasks.
     ebind (py_iter tasks) (\<lambda>ts.
     ebind (eloop (strip_runbook_task decompiled_secrets path_list (s @ ''.task_definition_list''))
              0 ts acc) (\<lambda>(ts', acc').
       Inr (store_back obj ''task_definition_list'' (iter_store tasks ts'), acc')))))))"

definition strip_all_secret_variables :: "json \<Rightarrow> path \<Rightarrow> json \<Rightarrow> collected
    \<Rightarrow> py_error + (json \<times> collected)" where
  "strip_all_secret_variables decompiled_secrets path_list obj acc =
     ebind (path_root path_list) (\<lambda>root.
     ebind (strip_entity_secret_variables decompiled_secrets path_list obj ''variable_list'' root acc)
       (\<lambda>(obj1, acc1).
     ebind (strip_action_secret_variables decompiled_secrets path_list obj1 acc1) (\<lambda>(obj2, acc2).
     ebind (strip_runbook_secret_variables decompiled_secrets path_list obj2 acc2) (\<lambda>(obj3, acc3).
       strip_authentication_secret_variables decompiled_secrets path_list obj3 root acc3))))"

text \<open>The two loops at the end of \<^verbatim>\<open>strip_secrets\<close> (lines 355 to 369).\<close>

fun strip_object_lists :: "json \<Rightarrow> string list \<Rightarrow> json \<Rightarrow> collected \<Rightarrow> py_error + (json \<times> collected)" where
  "strip_object_lists decompiled_secrets [] resources acc = Inr (resources, acc)"
| "strip_object_lists decompiled_secrets (object_list # rest) resources acc =
     ebind (py_get resources object_list (JList [])) (\<lambda>raw.
     ebind (py_iter (py_or raw (JList []))) (\<lambda>objs.
     ebind (eloop (\<lambda>obj_idx. strip_all_secret_variables decompiled_secrets
                     [PKey object_list, PIdx (int obj_idx)]) 0 objs acc) (\<lambda>(objs', acc').
       strip_object_lists decompiled_secrets rest
         (store_back resources object_list (iter_store raw objs')) acc')))"

fun strip_objects :: "json \<Rightarrow> string list \<Rightarrow> json \<Rightarrow> collected \<Rightarrow> py_error + (json \<times> collected)" where
  "strip_objects decompiled_secrets [] resources acc = Inr (resources, acc)"
| "strip_objects decompiled_secrets (obj # rest) resources acc =
     ebind (py_get resources obj (JDict [])) (\<lambda>v.
     ebind (strip_all_secret_variables decompiled_secrets [PKey obj] v acc) (\<lambda>(v', acc').
       strip_objects decompiled_secrets rest (store_back resources obj v') acc'))"

text \<open>
  \<^verbatim>\<open>strip_secrets\<close>. It returns nothing; its result is what it leaves in
  \<^verbatim>\<open>resources\<close>, \<^verbatim>\<open>secret_map\<close>, \<^verbatim>\<open>secret_variables\<close> and
  \<^verbatim>\<open>not_stripped_secrets\<close>.
\<close>

definition strip_secrets :: "json \<Rightarrow> smap \<Rightarrow> (path \<times> json \<times> json) list \<Rightarrow> string list \<Rightarrow> string list
    \<Rightarrow> json \<Rightarrow> (path \<times> json) list \<Rightarrow> py_error + (json \<times> smap \<times> collected)" where
  "strip_secrets resources secret_map secret_variables object_lists objects decompiled_secrets
      not_stripped_secrets =
     ebind (strip_credentials decompiled_secrets resources secret_map) (\<lambda>(resources1, secret_map1).
     ebind (strip_endpoint decompiled_secrets resources1 secret_map1) (\<lambda>(resources2, secret_map2).
     ebind (strip_object_lists decompiled_secrets object_lists resources2
              \<lparr>acc_secret_variables = secret_variables, acc_not_stripped = not_stripped_secrets\<rparr>)
       (\<lambda>(resources3, acc3).
     ebind (strip_objects decompiled_secrets objects resources3 acc3) (\<lambda>(resources4, acc4).
       Inr (resources4, secret_map2, acc4)))))"

section \<open>strip_vmware_secrets\<close>

definition vmware_attrs_placeholder :: json where
  "vmware_attrs_placeholder =
     JDict [(''is_secret_modified'', JBool False), (''secret_reference'', JNull)]"

text \<open>
  One password of \<^verbatim>\<open>windows_data\<close>: the admin password (lines 397 to 417) and the
  domain password (lines 421 to 454) differ in three places. The admin context is
  computed before the test that the password is there; the name recorded with a
  detached domain password is read with \<^verbatim>\<open>["name"]\<close>; and a domain password that is
  not detached is still popped.
\<close>

definition vmware_context :: "string \<Rightarrow> json \<Rightarrow> py_error + string" where
  "vmware_context field pw =
     ebind (py_get pw ''name'' (JStr [])) (\<lambda>n.
       str_add (''create_spec.resources.guest_customization.windows_data'' @ ''windows_data''
                @ ''.'' @ field @ ''.'') n)"

definition strip_admin_password :: "json \<Rightarrow> path \<Rightarrow> json \<Rightarrow> collected \<Rightarrow> py_error + (json \<times> collected)" where
  "strip_admin_password decompiled_secrets path_list obj acc =
     ebind (py_getitem obj (JStr ''password'')) (\<lambda>pw0.
     ebind (vmware_context ''password'' pw0) (\<lambda>context.
     ebind (get_secrets_from_context decompiled_secrets context) (\<lambda>filtered.
     ebind (py_get obj ''password'' (JDict [])) (\<lambda>pw.
       if truthy pw then
         ebind (py_get pw ''name'' (JStr [])) (\<lambda>name.
         ebind (py_get pw ''value'' JNull) (\<lambda>value.
         ebind (is_secret_modified filtered name value) (\<lambda>m.
           if m then
             ebind (py_pop_default pw ''value'' (JStr [])) (\<lambda>(v, pw1).
             ebind (py_get pw1 ''name'' (JStr [])) (\<lambda>name'.
             ebind (py_setitem pw1 ''attrs'' vmware_attrs_placeholder) (\<lambda>pw2.
               Inr (store_back obj ''password'' pw2,
                    add_secret_variable (path_list @ [PKey ''password'']) v name' acc))))
           else
             ebind (py_get pw ''value'' (JStr [])) (\<lambda>v.
               Inr (obj, add_not_stripped (path_list @ [PKey ''password'']) v acc)))))
       else Inr (obj, acc)))))"

definition strip_domain_password :: "json \<Rightarrow> path \<Rightarrow> json \<Rightarrow> collected \<Rightarrow> py_error + (json \<times> collected)" where
  "strip_domain_password decompiled_secrets path_list obj acc =
     ebind (py_get obj ''is_domain'' (JBool False)) (\<lambda>is_domain.
       if truthy is_domain then
         ebind (py_get obj ''domain_password'' (JDict [])) (\<lambda>pw.
           if truthy pw then
             ebind (vmware_context ''domain_password'' pw) (\<lambda>context.
             ebind (get_secrets_from_context decompiled_secrets context) (\<lambda>filtered.
             ebind (py_get pw ''name'' (JStr [])) (\<lambda>name.
             ebind (py_get pw ''value'' JNull) (\<lambda>value.
             ebind (is_secret_modified filtered name value) (\<lambda>m.
               if m then
                 ebind (py_pop_default pw ''value'' (JStr [])) (\<lambda>(v, pw1).
                 ebind (py_getitem pw1 (JStr ''name'')) (\<lambda>name'.
                 ebind (py_setitem pw1 ''attrs'' vmware_attrs_placeholder) (\<lambda>pw2.
                   Inr (store_back obj ''domain_password'' pw2,
                        add_secret_variable (path_list @ [PKey ''domain_password'']) v name' acc))))
               else
                 ebind (py_pop_default pw ''value'' (JStr [])) (\<lambda>(v, pw1).
                   Inr (store_back obj ''domain_password'' pw1,
                        add_not_stripped (path_list @ [PKey ''domain_password'']) v acc)))))))
           else Inr (obj, acc))
       else Inr (obj, acc))"

text \<open>
  \<^verbatim>\<open>strip_vmware_secrets\<close> (lines 373 to 454). It returns nothing; its result is what it
  leaves in \<^verbatim>\<open>path_list\<close>, which it extends in place, in \<^verbatim>\<open>obj\<close> and in the two
  lists.
\<close>

definition strip_vmware_secrets :: "path \<Rightarrow> json \<Rightarrow> (path \<times> json \<times> json) list \<Rightarrow> json
    \<Rightarrow> (path \<times> json) list \<Rightarrow> py_error + (path \<times> json \<times> collected)" where
  "strip_vmware_secrets path_list obj secret_variables decompiled_secrets not_stripped_secrets =
     (let path_list1 = path_list @ [PKey ''create_spec'', PKey ''resources'', PKey ''guest_customization''];
          acc = \<lparr>acc_secret_variables = secret_variables, acc_not_stripped = not_stripped_secrets\<rparr> in
      ebind (py_getitem obj (JStr ''create_spec'')) (\<lambda>create_spec.
      ebind (py_getitem create_spec (JStr ''resources'')) (\<lambda>resources.
      ebind (py_getitem resources (JStr ''guest_customization'')) (\<lambda>gc.
      ebind (py_get gc ''windows_data'' (JDict [])) (\<lambda>wd.
        if truthy wd then
          (let path_list2 = path_list1 @ [PKey ''windows_data''] in
           ebind (py_getitem gc (JStr ''windows_data'')) (\<lambda>wd1.
             if \<not> truthy wd1 then Inr (path_list2, obj, acc)
             else
               ebind (strip_admin_password decompiled_secrets path_list2 wd1 acc) (\<lambda>(wd2, acc1).
               ebind (strip_domain_password decompiled_secrets path_list2 wd2 acc1) (\<lambda>(wd3, acc2).
                 Inr (path_list2,
                      store_back obj ''create_spec''
                        (store_back create_spec ''resources''
                          (store_back resources ''guest_customization''
                            (store_back gc ''windows_data'' wd3))),
                      acc2)))))
        else Inr (path_list1, obj, acc))))))"

text \<open>
  The default values of a Python function are objects made once, when the function is
  defined, and kept with the function: a call that leaves an argument out gets that same
  object again. \<^verbatim>\<open>strip_vmware_secrets\<close> has the defaults
  \<^verbatim>\<open>secret_variables=[]\<close>, \<^verbatim>\<open>decompiled_secrets=[]\<close> and
  \<^verbatim>\<open>not_stripped_secrets=[]\<close>, and \<^verbatim>\<open>strip_secrets\<close> has
  \<^verbatim>\<open>object_lists=[]\<close>, \<^verbatim>\<open>objects=[]\<close>, \<^verbatim>\<open>decompiled_secrets=[]\<close> and
  \<^verbatim>\<open>not_stripped_secrets=[]\<close>. The lists a call can append to are the state of the
  function between calls.
\<close>

record vmware_defaults =
  default_secret_variables :: "(path \<times> json \<times> json) list"
  default_not_stripped :: "(path \<times> json) list"

definition vmware_defaults_at_import :: vmware_defaults where
  "vmware_defaults_at_import = \<lparr>default_secret_variables = [], default_not_stripped = []\<rparr>"

text \<open>
  A call \<^verbatim>\<open>strip_vmware_secrets(path_list, obj)\<close>: what it leaves in \<^verbatim>\<open>path_list\<close>
  and \<^verbatim>\<open>obj\<close>, and in the lists kept with the function.
\<close>

definition strip_vmware_secrets_call :: "vmware_defaults \<Rightarrow> path \<Rightarrow> json
    \<Rightarrow> py_error + (path \<times> json \<times> vmware_defaults)" where
  "strip_vmware_secrets_call d path_list obj =
     ebind (strip_vmware_secrets path_list obj (default_secret_variables d) (JList [])
              (default_not_stripped d)) (\<lambda>(path_list', obj', acc).
       Inr (path_list', obj',
            \<lparr>default_secret_variables = acc_secret_variables acc,
             default_not_stripped = acc_not_stripped acc\<rparr>))"

text \<open>
  A call \<^verbatim>\<open>strip_secrets(resources, secret_map, secret_variables)\<close>: the list kept with
  the function is \<^verbatim>\<open>not_stripped_secrets\<close>.
\<close>

definition strip_secrets_call :: "(path \<times> json) list \<Rightarrow> json \<Rightarrow> smap \<Rightarrow> (path \<times> json \<times> json) list
    \<Rightarrow> py_error + (json \<times> smap \<times> (path \<times> json \<times> json) list \<times> (path \<times> json) list)" where
  "strip_secrets_call default_ns resources secret_map secret_variables =
     ebind (strip_secrets resources secret_map secret_variables [] [] (JList []) default_ns)
       (\<lambda>(resources', secret_map', acc).
         Inr (resources', secret_map', acc_secret_variables acc, acc_not_stripped acc))"

section \<open>strip_patch_config_tasks\<close>

text \<open>The body of the loop over the patch configs of a profile (lines 710 to 715).\<close>

definition strip_patch_config :: "nat \<Rightarrow> json \<Rightarrow> smap \<Rightarrow> py_error + (json \<times> smap)" where
  "strip_patch_config i patch_config patch_config_task_list_map =
     ebind (py_get patch_config ''runbook'' (JDict [])) (\<lambda>runbook.
     ebind (py_pop_default runbook ''task_definition_list'' (JList [])) (\<lambda>(tasks, runbook').
     ebind (py_get patch_config ''name'' JNull) (\<lambda>name.
     ebind (sm_set patch_config_task_list_map name tasks) (\<lambda>m.
     ebind (py_pop_default (store_back patch_config ''runbook'' runbook') ''runbook'' (JStr []))
       (\<lambda>(r, patch_config'). Inr (patch_config', m))))))"

text \<open>The body of the loop over the profiles (lines 706 to 717).\<close>

definition strip_profile :: "nat \<Rightarrow> json \<Rightarrow> (json \<times> smap) list \<Rightarrow> py_error + (json \<times> (json \<times> smap) list)" where
  "strip_profile i profile profile_patch_config_tasks =
     ebind (py_get profile ''patch_list'' (JList [])) (\<lambda>patch_list.
     ebind (py_iter patch_list) (\<lambda>pcs.
     ebind (eloop strip_patch_config 0 pcs []) (\<lambda>(pcs', m).
     ebind (py_get profile ''name'' JNull) (\<lambda>name.
     ebind (sm_set profile_patch_config_tasks name m) (\<lambda>result.
       Inr (store_back profile ''patch_list'' (iter_store patch_list pcs'), result))))))"

text \<open>
  \<^verbatim>\<open>strip_patch_config_tasks\<close> returns the dict of dicts; the document it changed in
  place comes first in the result of the model.
\<close>

definition strip_patch_config_tasks :: "json \<Rightarrow> py_error + (json \<times> (json \<times> smap) list)" where
  "strip_patch_config_tasks resources =
     ebind (py_get resources ''app_profile_list'' (JList [])) (\<lambda>profiles.
     ebind (py_iter profiles) (\<lambda>ps.
     ebind (eloop strip_profile 0 ps []) (\<lambda>(ps', result).
       Inr (store_back resources ''app_profile_list'' (iter_store profiles ps'), result))))"

section \<open>AhvVmProvider.update_vm_image_config\<close>

text \<open>\<^verbatim>\<open>len(obj)\<close>.\<close>

fun py_len :: "json \<Rightarrow> py_error + nat" where
  "py_len (JList xs) = Inr (length xs)"
| "py_len (JDict kvs) = Inr (length kvs)"
| "py_len (JStr s) = Inr (length s)"
| "py_len v = Inl TypeError"

text \<open>
  An image class as the function sees it: the package \<^verbatim>\<open>img_cls.compile()\<close> and the
  reference \<^verbatim>\<open>ref(img_cls).compile()\<close>. Both computations belong to the DSL's
  builtins, which are outside the files at hand, so their results are given.
  \<^verbatim>\<open>AhvConstants.IMAGE_TYPES\<close> is a parameter for the same reason.
\<close>

record vm_image =
  img_pkg :: json
  img_ref :: json

text \<open>The body of the loop over \<^verbatim>\<open>disk_packages.items()\<close> (lines 39 to 58).\<close>

definition update_disk :: "json \<Rightarrow> json \<Rightarrow> int \<times> vm_image \<Rightarrow> py_error + json" where
  "update_disk image_types disk_list entry =
     (case entry of (disk_ind, img_cls) \<Rightarrow>
      ebind (py_len disk_list) (\<lambda>n.
        if disk_ind > int n then Inl ValueError
        else
          ebind (py_getitem disk_list (JInt (disk_ind - 1))) (\<lambda>disk.
          ebind (py_in (JStr ''data_source_reference'') disk) (\<lambda>present.
            if \<not> present then Inl ValueError
            else
              ebind (py_getitem (img_pkg img_cls) (JStr ''options'')) (\<lambda>options.
              ebind (py_getitem options (JStr ''resources'')) (\<lambda>resources.
              ebind (py_getitem resources (JStr ''image_type'')) (\<lambda>vm_image_type.
              ebind (py_getitem disk (JStr ''device_properties'')) (\<lambda>device_properties.
              ebind (py_getitem device_properties (JStr ''device_type'')) (\<lambda>device_type.
              ebind (py_getitem image_types device_type) (\<lambda>disk_img_type.
                if \<not> py_eq vm_image_type disk_img_type then Inl TypeError
                else
                  ebind (py_setitem disk ''data_source_reference'' (img_ref img_cls)) (\<lambda>disk'.
                    Inr (put_item disk_list (PIdx (disk_ind - 1)) disk'))))))))))))"

fun update_disks :: "json \<Rightarrow> json \<Rightarrow> (int \<times> vm_image) list \<Rightarrow> py_error + json" where
  "update_disks image_types disk_list [] = Inr disk_list"
| "update_disks image_types disk_list (entry # rest) =
     ebind (update_disk image_types disk_list entry) (\<lambda>disk_list'.
       update_disks image_types disk_list' rest)"

text \<open>
  \<^verbatim>\<open>update_vm_image_config\<close> returns nothing: the result of the model is the
  \<^verbatim>\<open>spec\<close> it changed in place. \<^verbatim>\<open>disk_packages\<close> is a dict, given by its items
  in order; its keys are the disk positions.
\<close>

definition update_vm_image_config :: "json \<Rightarrow> json \<Rightarrow> (int \<times> vm_image) list \<Rightarrow> py_error + json" where
  "update_vm_image_config image_types spec disk_packages =
     ebind (py_getitem spec (JStr ''resources'')) (\<lambda>resources.
     ebind (py_get resources ''disk_list'' (JList [])) (\<lambda>disk_list.
     ebind (update_disks image_types disk_list disk_packages) (\<lambda>disk_list'.
       Inr (store_back spec ''resources'' (store_back resources ''disk_list'' disk_list')))))"

section \<open>get_provider_spec_string\<close>

text \<open>
  \<^verbatim>\<open>pdb.set_trace()\<close> stops the program at the debugger's prompt. What happens next
  is the operator's choice: \<^verbatim>\<open>continue\<close> resumes the function; \<^verbatim>\<open>quit\<close>, or the
  end of the input of a program that runs without a terminal, raises
  \<^verbatim>\<open>bdb.BdbQuit\<close>.
\<close>

datatype debugger_command = DbgContinue | DbgQuit

definition pdb_set_trace :: "debugger_command \<Rightarrow> py_error + unit" where
  "pdb_set_trace c = (case c of DbgContinue \<Rightarrow> Inr () | DbgQuit \<Rightarrow> Inl BdbQuit)"

text \<open>Decimal digits of a natural number, as \<^verbatim>\<open>str.format\<close> prints an integer.\<close>

function show_nat :: "nat \<Rightarrow> string" where
  "show_nat n =
     (if n < 10 then [''0123456789'' ! n]
      else show_nat (n div 10) @ [''0123456789'' ! (n mod 10)])"
  by pat_completeness auto
termination
  by (relation "measure id") auto

text \<open>
  The loop over \<^verbatim>\<open>disk_list\<close> (lines 113 to 120): the entries of
  \<^verbatim>\<open>disk_ind_img_map\<close> in the order they are added, each 1-based position once.
  \<^verbatim>\<open>get_valid_identifier\<close> comes from the DSL's builtins, outside the files at hand:
  it is a parameter, giving the text that \<^verbatim>\<open>format\<close> prints for its result.
\<close>

definition spec_disk :: "(json \<Rightarrow> py_error + string) \<Rightarrow> nat \<Rightarrow> json \<Rightarrow> (nat \<times> string) list
    \<Rightarrow> py_error + (json \<times> (nat \<times> string) list)" where
  "spec_disk get_valid_identifier ind disk disk_ind_img_map =
     ebind (py_get disk ''data_source_reference'' (JDict [])) (\<lambda>data_source_ref.
       if truthy data_source_ref then
         ebind (py_get data_source_ref ''kind'' JNull) (\<lambda>kind.
           if py_eq kind (JStr ''app_package'') then
             ebind (py_get data_source_ref ''name'' JNull) (\<lambda>name.
             ebind (get_valid_identifier name) (\<lambda>ident.
             ebind (py_pop_default data_source_ref ''uuid'' JNull) (\<lambda>(u, data_source_ref').
               Inr (store_back disk ''data_source_reference'' data_source_ref',
                    disk_ind_img_map @ [(ind + 1, ident)]))))
           else Inr (disk, disk_ind_img_map))
       else Inr (disk, disk_ind_img_map))"

text \<open>Lines 122 to 127: the entries joined by commas, in braces.\<close>

definition disk_pkg_string :: "(nat \<times> string) list \<Rightarrow> string" where
  "disk_pkg_string m =
     (let s = concat (map (\<lambda>(k, v). '','' @ show_nat k @ '': '' @ v) m)
      in ''{'' @ (case s of c # cs \<Rightarrow> (if c = CHR '','' then cs else s) | [] \<Rightarrow> s) @ ''}'')"

text \<open>
  \<^verbatim>\<open>get_provider_spec_string\<close>. \<^verbatim>\<open>AhvVmType.decompile\<close>, which validates the
  spec, is a parameter too. The model returns the string with the \<^verbatim>\<open>spec\<close> that the
  function changed in place.
\<close>

definition get_provider_spec_string :: "debugger_command \<Rightarrow> (json \<Rightarrow> py_error + unit)
    \<Rightarrow> (json \<Rightarrow> py_error + string) \<Rightarrow> json \<Rightarrow> string \<Rightarrow> string \<Rightarrow> string list
    \<Rightarrow> py_error + (string \<times> json)" where
  "get_provider_spec_string debugger decompile get_valid_identifier spec filename provider_type
      vm_images =
     (if provider_type = ''AHV_VM'' then
        ebind (pdb_set_trace debugger) (\<lambda>u.
        ebind (decompile spec) (\<lambda>u'.
        ebind (py_getitem spec (JStr ''resources'')) (\<lambda>resources.
        ebind (py_getitem resources (JStr ''disk_list'')) (\<lambda>disk_list.
        ebind (py_iter disk_list) (\<lambda>disks.
        ebind (eloop (spec_disk get_valid_identifier) 0 disks []) (\<lambda>(disks', disk_ind_img_map).
          Inr (''read_ahv_spec('' @ [CHR 0x27] @ filename @ [CHR 0x27] @ '', disk_packages = ''
                 @ disk_pkg_string disk_ind_img_map @ '')'',
               store_back spec ''resources''
                 (store_back resources ''disk_list'' (iter_store disk_list disks')))))))))
      else if provider_type = ''VMWARE_VM'' then
        ebind (py_getitem spec (JStr ''template'')) (\<lambda>template.
        ebind (get_valid_identifier template) (\<lambda>spec_template.
          if spec_template \<in> set vm_images then
            ebind (py_setitem spec ''template'' (JStr [])) (\<lambda>spec'.
              Inr (''read_vmw_spec('' @ [CHR 0x27] @ filename @ [CHR 0x27] @ '', vm_template=''
                     @ spec_template @ '')'', spec'))
          else Inr (''read_vmw_spec('' @ [CHR 0x27] @ filename @ [CHR 0x27] @ '')'', spec)))
      else Inr (''read_provider_spec('' @ [CHR 0x27] @ filename @ [CHR 0x27] @ '')'', spec))"

section \<open>Command handlers\<close>

text \<open>
  What a command handler does besides computing: it calls the REST API, it logs, it
  prints, and it ends in one of three ways. It returns to its caller, it ends the
  process with \<^verbatim>\<open>sys.exit\<close>, or it raises an exception. The trace of a run lists the
  REST calls, each with its name and its argument, the log lines and the output, in the
  order in which they happen; a call made twice is in the trace twice. A REST call gives
  a pair \<^verbatim>\<open>(res, err)\<close>; the model takes the body \<^verbatim>\<open>res.json()\<close> and \<^verbatim>\<open>err\<close>,
  which is \<^verbatim>\<open>None\<close> after a call that worked. What the server answers is a
  parameter: a function from the argument of the call.
\<close>

datatype log_level = Info | Warning | Error

datatype event = Call string json | Log log_level string json | Echo json

datatype 'a ending = Return 'a | Exit int | Raise string

type_synonym 'a run = "event list \<times> 'a ending"








text \<open>What a handler does after some events: the events go first.\<close>

definition after_events :: "event list \<Rightarrow> 'a run \<Rightarrow> 'a run" where
  "after_events events r = (case r of (events', ending) \<Rightarrow> (events @ events', ending))"





text \<open>
  \<^verbatim>\<open>delete_acp_using_projects_internal_api\<close> (lines 279 to 313). The three REST calls
  are parameters. \<^verbatim>\<open>err\<close> of the first call is not looked at.
\<close>

record acp_api =
  acp_read :: "json \<Rightarrow> json \<times> json"
  project_read :: "json \<Rightarrow> json \<times> json"
  project_update :: "json \<Rightarrow> json \<Rightarrow> json \<times> json"









section \<open>Paths and example documents\<close>

text \<open>
  Following a path through a document, as \<^verbatim>\<open>variable = variable[sub_path]\<close> does
  step by step; \<^verbatim>\<open>None\<close> when a step raises.
\<close>

fun json_at :: "json \<Rightarrow> path \<Rightarrow> json option" where
  "json_at v [] = Some v"
| "json_at v (p # ps) = (case py_getitem v (pelem_json p) of Inl e \<Rightarrow> None | Inr c \<Rightarrow> json_at c ps)"

text \<open>A dict lacks a path element: a string that is not among its keys, or any position.\<close>

definition lacks_key :: "(string \<times> json) list \<Rightarrow> pelem \<Rightarrow> bool" where
  "lacks_key kvs p = (case p of PKey s \<Rightarrow> map_of kvs s = None | PIdx i \<Rightarrow> True)"

definition stale_doc :: json where
  "stale_doc = JDict [(''a'', JDict [(''x'', JStr ''1'')])]"

text \<open>
  For \<^verbatim>\<open>update_vm_image_config\<close>: the image type of a package,
  \<^verbatim>\<open>pkg["options"]["resources"]["image_type"]\<close>, and the image type of a disk,
  \<^verbatim>\<open>IMAGE_TYPES[disk["device_properties"]["device_type"]]\<close>, where they exist.
\<close>

definition image_type_of :: "vm_image \<Rightarrow> json option" where
  "image_type_of img = json_at (img_pkg img) [PKey ''options'', PKey ''resources'', PKey ''image_type'']"

definition disk_image_type :: "json \<Rightarrow> json \<Rightarrow> json option" where
  "disk_image_type image_types disk =
     (case json_at disk [PKey ''device_properties'', PKey ''device_type''] of
        None \<Rightarrow> None
      | Some t \<Rightarrow> (case py_getitem image_types t of Inl e \<Rightarrow> None | Inr x \<Rightarrow> Some x))"

text \<open>Example values: the image types of AHV, a disk, two image classes and a spec.\<close>

definition ahv_image_types :: json where
  "ahv_image_types = JDict [(''DISK'', JStr ''DISK_IMAGE''), (''CDROM'', JStr ''ISO_IMAGE'')]"

definition disk_a :: json where
  "disk_a = JDict [(''device_properties'', JDict [(''device_type'', JStr ''DISK'')]),
                   (''data_source_reference'', JDict [(''kind'', JStr ''image'')])]"

definition img_disk :: vm_image where
  "img_disk = \<lparr>img_pkg = JDict [(''options'', JDict [(''resources'', JDict [(''image_type'', JStr ''DISK_IMAGE'')])])],
               img_ref = JDict [(''kind'', JStr ''app_package''), (''name'', JStr ''centos'')]\<rparr>"

definition img_iso :: vm_image where
  "img_iso = \<lparr>img_pkg = JDict [(''options'', JDict [(''resources'', JDict [(''image_type'', JStr ''ISO_IMAGE'')])])],
              img_ref = JDict [(''kind'', JStr ''app_package''), (''name'', JStr ''iso'')]\<rparr>"

definition spec_a :: json where
  "spec_a = JDict [(''resources'', JDict [(''disk_list'', JList [disk_a])])]"

text \<open>
  Example values for \<^verbatim>\<open>strip_vmware_secrets\<close>: a VMware spec with the admin password
  of its Windows customization, the path to \<^verbatim>\<open>windows_data\<close>, the spec after the
  walk, and the entry that the walk records.
\<close>

definition vm_obj :: json where
  "vm_obj = JDict [(''create_spec'', JDict [(''resources'', JDict [(''guest_customization'',
      JDict [(''windows_data'', JDict [(''password'',
         JDict [(''name'', JStr ''admin''), (''value'', JStr ''pw'')])])])])])]"

definition vm_path :: path where
  "vm_path = [PKey ''create_spec'', PKey ''resources'', PKey ''guest_customization'', PKey ''windows_data'']"

definition vm_entry :: "path \<times> json \<times> json" where
  "vm_entry = (vm_path @ [PKey ''password''], JStr ''pw'', JStr ''admin'')"

definition vm_obj_stripped :: json where
  "vm_obj_stripped = JDict [(''create_spec'', JDict [(''resources'', JDict [(''guest_customization'',
      JDict [(''windows_data'', JDict [(''password'',
         JDict [(''name'', JStr ''admin''),
                (''attrs'', JDict [(''is_secret_modified'', JBool False),
                                   (''secret_reference'', JNull)])])])])])])]"

text \<open>
  Example values for \<^verbatim>\<open>get_provider_spec_string\<close>: a validation that accepts the
  spec, an identifier function that is the identity on strings, and an AHV spec with
  three disks, the first and the third from packages.
\<close>

definition decompile_ok :: "json \<Rightarrow> py_error + unit" where
  "decompile_ok spec = Inr ()"

definition identifier_text :: "json \<Rightarrow> py_error + string" where
  "identifier_text v = (case v of JStr s \<Rightarrow> Inr s | _ \<Rightarrow> Inl TypeError)"

definition ahv_spec :: json where
  "ahv_spec = JDict [(''resources'', JDict [(''disk_list'', JList [
      JDict [(''data_source_reference'',
              JDict [(''kind'', JStr ''app_package''), (''name'', JStr ''centos''),
                     (''uuid'', JStr ''u1'')])],
      JDict [(''data_source_reference'', JNull)],
      JDict [(''data_source_reference'',
              JDict [(''kind'', JStr ''app_package''), (''name'', JStr ''iso'')])]])])]"

text \<open>
  Example values for the command handlers: a REST call that fails with code 500 and one
  that works, no name query, the uuids of two access control policies, and four servers:
  one on which every call fails, one whose policy references no project, one on which
  reading the project fails, and one on which updating the project fails.
\<close>

definition api_error :: json where
  "api_error = JDict [(''code'', JInt 500), (''error'', JStr ''boom'')]"

definition failing_acp_list :: "json \<Rightarrow> json \<times> json" where
  "failing_acp_list params = (JNull, api_error)"




definition failing_api :: acp_api where
  "failing_api = \<lparr>acp_read = failing_acp_list, project_read = failing_acp_list,
                  project_update = (\<lambda>uuid. failing_acp_list)\<rparr>"






text \<open>
  For \<^verbatim>\<open>strip_patch_config_tasks\<close>: a patch config without its runbook; a change
  applied to the value under a key of a dict, and to every element of a list; the name of
  an object (\<^verbatim>\<open>obj.get("name")\<close>); the list under a key; the task list that the runbook
  of a patch config holds, empty when there is no runbook or no task list; and the tasks
  of the patch configs of a profile, collected in order under their names.
\<close>

definition drop_runbook :: "json \<Rightarrow> json" where
  "drop_runbook pc = (case pc of JDict kvs \<Rightarrow> JDict (AList.delete ''runbook'' kvs) | _ \<Rightarrow> pc)"

definition under :: "string \<Rightarrow> (json \<Rightarrow> json) \<Rightarrow> json \<Rightarrow> json" where
  "under k f obj =
     (case obj of
        JDict kvs \<Rightarrow> (case map_of kvs k of None \<Rightarrow> obj | Some v \<Rightarrow> JDict (AList.update k (f v) kvs))
      | _ \<Rightarrow> obj)"

definition each :: "(json \<Rightarrow> json) \<Rightarrow> json \<Rightarrow> json" where
  "each f v = (case v of JList xs \<Rightarrow> JList (map f xs) | _ \<Rightarrow> v)"

definition name_of :: "json \<Rightarrow> json" where
  "name_of obj =
     (case obj of JDict kvs \<Rightarrow> (case map_of kvs ''name'' of None \<Rightarrow> JNull | Some n \<Rightarrow> n) | _ \<Rightarrow> JNull)"

definition list_under :: "string \<Rightarrow> json \<Rightarrow> json list" where
  "list_under k obj =
     (case obj of JDict kvs \<Rightarrow> (case map_of kvs k of Some (JList xs) \<Rightarrow> xs | _ \<Rightarrow> []) | _ \<Rightarrow> [])"

definition runbook_tasks :: "json \<Rightarrow> json" where
  "runbook_tasks pc =
     (case pc of
        JDict kvs \<Rightarrow>
          (case map_of kvs ''runbook'' of
             Some (JDict r) \<Rightarrow> (case map_of r ''task_definition_list'' of None \<Rightarrow> JList [] | Some t \<Rightarrow> t)
           | _ \<Rightarrow> JList [])
      | _ \<Rightarrow> JList [])"

text \<open>The names of a list of objects are strings, no two of them equal.\<close>

definition is_string :: "json \<Rightarrow> bool" where
  "is_string v = (case v of JStr s \<Rightarrow> True | _ \<Rightarrow> False)"

definition distinct_names :: "json list \<Rightarrow> bool" where
  "distinct_names objs = (list_all is_string (map name_of objs) \<and> distinct (map name_of objs))"

definition config_tasks :: "json \<Rightarrow> smap" where
  "config_tasks profile =
     fold (\<lambda>pc. sm_update (name_of pc) (runbook_tasks pc)) (list_under ''patch_list'' profile) []"

text \<open>
  Example documents: a profile with two patch configs, one of them with a runbook, and
  two profiles of the same name.
\<close>

definition profiles_doc :: json where
  "profiles_doc = JDict [
     (''app_profile_list'', JList [
        JDict [(''name'', JStr ''P1''),
               (''patch_list'', JList [
                  JDict [(''name'', JStr ''c1''),
                         (''runbook'', JDict [(''name'', JStr ''rb''),
                                              (''task_definition_list'', JList [JStr ''T1''])])],
                  JDict [(''name'', JStr ''c2'')]])]]),
     (''other'', JStr ''x'')]"

definition profiles_doc_stripped :: json where
  "profiles_doc_stripped = JDict [
     (''app_profile_list'', JList [
        JDict [(''name'', JStr ''P1''),
               (''patch_list'', JList [JDict [(''name'', JStr ''c1'')],
                                       JDict [(''name'', JStr ''c2'')]])]]),
     (''other'', JStr ''x'')]"

definition same_name_doc :: json where
  "same_name_doc = JDict [
     (''app_profile_list'', JList [
        JDict [(''name'', JStr ''P''),
               (''patch_list'', JList [
                  JDict [(''name'', JStr ''c1''),
                         (''runbook'', JDict [(''task_definition_list'', JList [JStr ''T1''])])]])],
        JDict [(''name'', JStr ''P''), (''patch_list'', JList [])]])]"

definition same_name_doc_stripped :: json where
  "same_name_doc_stripped = JDict [
     (''app_profile_list'', JList [
        JDict [(''name'', JStr ''P''), (''patch_list'', JList [JDict [(''name'', JStr ''c1'')]])],
        JDict [(''name'', JStr ''P''), (''patch_list'', JList [])]])]"

text \<open>
  For the \<^verbatim>\<open>SECRET\<close> variables: the value of a variable
  (\<^verbatim>\<open>variable.get("value", None)\<close>); whether the recorded secrets, a dict, hold an equal
  value under the name; and a variable after its value has been detached.
\<close>

definition value_of :: "json \<Rightarrow> json" where
  "value_of obj =
     (case obj of JDict kvs \<Rightarrow> (case map_of kvs ''value'' of None \<Rightarrow> JNull | Some v \<Rightarrow> v) | _ \<Rightarrow> JNull)"





section \<open>Locations of a document\<close>

text \<open>Two locations are apart when neither lies on the way to the other.\<close>

definition apart :: "path \<Rightarrow> path \<Rightarrow> bool" where
  "apart p q = (\<not> prefix p q \<and> \<not> prefix q p)"

text \<open>
  What \<^verbatim>\<open>patch_secrets\<close> leaves at a location it re-attaches a secret to: the
  dict found there with \<^verbatim>\<open>attrs\<close> and \<^verbatim>\<open>value\<close> set (lines 497 to 498).
\<close>

definition modified_attrs :: json where
  "modified_attrs = JDict [(''is_secret_modified'', JBool True)]"

definition reattached :: "json \<Rightarrow> (string \<times> json) list \<Rightarrow> json" where
  "reattached secret d = JDict (AList.update ''value'' secret (AList.update ''attrs'' modified_attrs d))"

text \<open>The password of the HTTP task of a dynamic variable, seen from the variable.\<close>

definition options_password_path :: path where
  "options_password_path = [PKey ''options'', PKey ''attrs'', PKey ''authentication'',
                            PKey ''basic_auth'', PKey ''password'']"


text \<open>
  A location holds a placeholder: an object whose \<^verbatim>\<open>attrs\<close> have
  \<^verbatim>\<open>is_secret_modified\<close> equal to \<^verbatim>\<open>False\<close> and which has no value, or the
  value \<^verbatim>\<open>None\<close>.
\<close>

definition holds_placeholder :: "json \<Rightarrow> path \<Rightarrow> bool" where
  "holds_placeholder doc p =
     (case field_at doc p of
        None \<Rightarrow> False
      | Some x \<Rightarrow>
          field_at x [PKey ''attrs'', PKey ''is_secret_modified''] = Some (JBool False)
          \<and> (case field_at x [PKey ''value''] of None \<Rightarrow> True | Some v \<Rightarrow> v = JNull))"

text \<open>
  Example documents for the walk: a substrate with two secret variables of the same
  value, the second recorded with that value; and two credentials of the same name.
\<close>

definition two_secret_doc :: json where
  "two_secret_doc = JDict [(''substrate_definition_list'', JList [
      JDict [(''name'', JStr ''s1''),
             (''variable_list'', JList [
                JDict [(''name'', JStr ''a''), (''type'', JStr ''SECRET''), (''value'', JStr ''pw'')],
                JDict [(''name'', JStr ''b''), (''type'', JStr ''SECRET''), (''value'', JStr ''pw'')]])]])]"

definition two_secret_recorded :: json where
  "two_secret_recorded =
     JDict [(''substrate_definition_list.s1.variable_list'', JDict [(''b'', JStr ''pw'')])]"

definition two_secret_doc_stripped :: json where
  "two_secret_doc_stripped = JDict [(''substrate_definition_list'', JList [
      JDict [(''name'', JStr ''s1''),
             (''variable_list'', JList [
                JDict [(''name'', JStr ''a''), (''type'', JStr ''SECRET''),
                       (''attrs'', variable_attrs_placeholder)],
                JDict [(''name'', JStr ''b''), (''type'', JStr ''SECRET''), (''value'', JStr ''pw'')]])]])]"

definition cred_named :: "string \<Rightarrow> json \<Rightarrow> json" where
  "cred_named n secret = JDict [(''name'', JStr n), (''secret'', secret)]"

definition same_name_creds :: "json \<Rightarrow> json \<Rightarrow> json" where
  "same_name_creds s1 s2 =
     JDict [(''credential_definition_list'', JList [cred_named ''c'' s1, cred_named ''c'' s2])]"

section \<open>Unfolding the walk\<close>


section \<open>Stale paths in patch_secrets\<close>

lemma walk_apply_lacks_key:
  "lacks_key kvs k \<Longrightarrow> walk_apply f (k # rest) (JDict kvs) = Inr None"
  by (cases k) (simp_all add: lacks_key_def is_dict_def has_key_def)

lemma walk_apply_stale:
  "json_at v pre = Some (JDict kvs) \<Longrightarrow> lacks_key kvs k \<Longrightarrow> walk_apply f (pre @ k # rest) v = Inr None"
proof (induction pre arbitrary: v)
  case Nil
  then show ?case by (simp del: walk_apply.simps add: walk_apply_lacks_key)
next
  case (Cons p ps)
  from Cons.prems(1) obtain c where c: "py_getitem v (pelem_json p) = Inr c" and at: "json_at c ps = Some (JDict kvs)"
    by (auto split: sum.splits)
  have "walk_apply f (ps @ k # rest) c = Inr None"
    using Cons.IH [OF at Cons.prems(2)] .
  then show ?case using c by simp
qed

lemma patch_variables_append:
  "patch_variables sh (xs @ ys) r = ebind (patch_variables sh xs r) (patch_variables sh ys)"
proof (induction xs arbitrary: r)
  case Nil show ?case by simp
next
  case (Cons e xs)
  obtain p s n where e: "e = (p, s, n)" by (cases e)
  show ?case
    by (cases "walk_apply (attach_secret s) p r") (simp_all add: e Cons.IH)
qed

lemma patch_existing_append:
  "patch_existing sh (xs @ ys) r = ebind (patch_existing sh xs r) (patch_existing sh ys)"
proof (induction xs arbitrary: r)
  case Nil show ?case by simp
next
  case (Cons e xs)
  obtain p s where e: "e = (p, s)" by (cases e)
  show ?case
    by (cases "walk_apply mark_unmodified p r") (simp_all add: e Cons.IH)
qed

lemma patch_variables_stale:
  assumes "json_at r pre = Some (JDict kvs)" and "lacks_key kvs k"
  shows "patch_variables sh ((pre @ k # rest, secret, name) # after) r = patch_variables sh after r"
  by (simp add: walk_apply_stale [OF assms])

lemma patch_existing_stale:
  assumes "json_at r pre = Some (JDict kvs)" and "lacks_key kvs k"
  shows "patch_existing sh ((pre @ k # rest, secret) # after) r = patch_existing sh after r"
  by (simp add: walk_apply_stale [OF assms])

text \<open>The definitions of \<^verbatim>\<open>patch_secrets\<close>, for evaluating it on a given document.\<close>

lemmas patch_defs =
  patch_secrets_def patch_credentials_def patch_cred_def patch_auth_def store_back_def
  iter_store_def pelem_json_def is_dict_def has_key_def attach_secret_def mark_unmodified_def
  put_item_def share_def holds_entry_def sm_in_def sm_get_def py_index_def

text \<open>
  Two credentials of one name hold the one object that \<^verbatim>\<open>secret_map\<close> has for the
  name. The first entry writes \<^verbatim>\<open>value\<close> into it through the first credential, so
  the walk of the second entry finds \<^verbatim>\<open>value\<close> through the second credential and
  goes on into the string: \<^verbatim>\<open>TypeError\<close>.
\<close>

lemma patch_secrets_shared_secret:
  "patch_secrets (same_name_creds JNull JNull) [(JStr ''c'', JDict [])]
     [([PKey ''credential_definition_list'', PIdx 0, PKey ''secret''], JStr ''s'', JNull),
      ([PKey ''credential_definition_list'', PIdx 1, PKey ''secret'', PKey ''value'', PKey ''k''],
       JStr ''t'', JNull)] []
   = Inl TypeError"
  by (simp add: patch_defs same_name_creds_def cred_named_def)

text \<open>
  C8, as amended. \<^verbatim>\<open>patch_secrets\<close> tolerates a path that is stale when its entry is
  reached. Let \<^verbatim>\<open>r\<close> be the document as \<^verbatim>\<open>patch_secrets\<close> has left it when it
  reaches an entry: for an entry of \<^verbatim>\<open>secret_variables\<close>, what the call returns with
  the entries before it alone; for an entry of \<^verbatim>\<open>existing_secrets\<close>, what the call
  returns with the entries before it and no \<^verbatim>\<open>secret_variables\<close>. If the path of the
  entry, followed through \<^verbatim>\<open>r\<close>, gets to a dict that lacks the next element, then
  the call with the entry last returns \<^verbatim>\<open>r\<close>: the entry is skipped, nothing is
  written and nothing is raised. And the call with further entries after it does what
  the call without the entry does: the remaining entries are processed.
\<close>

theorem patch_secrets_skips_stale_path:
  assumes "json_at r pre = Some (JDict kvs)" and "lacks_key kvs k"
  shows "(patch_secrets resources secret_map before existing = Inr r \<longrightarrow>
            patch_secrets resources secret_map (before @ [(pre @ k # rest, secret, name)]) existing
              = Inr r
          \<and> patch_secrets resources secret_map (before @ (pre @ k # rest, secret, name) # after)
                existing
              = patch_secrets resources secret_map (before @ after) existing)
       \<and> (patch_secrets resources secret_map [] before' = Inr r \<longrightarrow>
            patch_secrets resources secret_map [] (before' @ [(pre @ k # rest, secret)]) = Inr r
          \<and> patch_secrets resources secret_map svs (before' @ (pre @ k # rest, secret) # after')
              = patch_secrets resources secret_map svs (before' @ after'))"
proof (intro conjI impI)
  assume a: "patch_secrets resources secret_map before existing = Inr r"
  then obtain r2 sh r3 where c: "patch_credentials secret_map resources = Inr (r2, sh)"
    and e: "patch_existing sh existing r2 = Inr r3"
    and v: "patch_variables sh before r3 = Inr r"
    by (cases "before = []") (auto simp: patch_secrets_def ebind_eq_Inr)
  show "patch_secrets resources secret_map (before @ [(pre @ k # rest, secret, name)]) existing
          = Inr r"
    using c e v
    by (simp add: patch_secrets_def patch_variables_append patch_variables_stale [OF assms]
        del: patch_variables.simps(2))
  have "patch_variables sh (before @ after) r3 = Inr r3" if "before @ after = []"
    using that by simp
  moreover have "r3 = r" if "before = []" using that v by simp
  ultimately
  show "patch_secrets resources secret_map (before @ (pre @ k # rest, secret, name) # after)
          existing
        = patch_secrets resources secret_map (before @ after) existing"
    using c e v
    by (auto simp: patch_secrets_def patch_variables_append patch_variables_stale [OF assms]
        simp del: patch_variables.simps(2))
next
  assume a: "patch_secrets resources secret_map [] before' = Inr r"
  then obtain r2 sh where c: "patch_credentials secret_map resources = Inr (r2, sh)"
    and e: "patch_existing sh before' r2 = Inr r"
    by (auto simp: patch_secrets_def ebind_eq_Inr)
  show "patch_secrets resources secret_map [] (before' @ [(pre @ k # rest, secret)]) = Inr r"
    using c e
    by (simp add: patch_secrets_def patch_existing_append patch_existing_stale [OF assms]
        del: patch_existing.simps(2))
  show "patch_secrets resources secret_map svs (before' @ (pre @ k # rest, secret) # after')
          = patch_secrets resources secret_map svs (before' @ after')"
    using c e
    by (simp add: patch_secrets_def patch_existing_append patch_existing_stale [OF assms]
        del: patch_existing.simps(2))
qed

text \<open>
  An instance: the path a, b, c is stale in a document whose dict under a has no key b.
  The entry after it is processed: as an entry of \<^verbatim>\<open>secret_variables\<close> it attaches
  its secret, as an entry of \<^verbatim>\<open>existing_secrets\<close> it marks the object unmodified.
\<close>

theorem patch_secrets_skips_stale_path_witness:
  "patch_secrets stale_doc []
     [([PKey ''a'', PKey ''b'', PKey ''c''], JStr ''v'', JNull), ([PKey ''a''], JStr ''s'', JNull)] []
   = Inr (JDict [(''a'', JDict [(''x'', JStr ''1''),
                                 (''attrs'', JDict [(''is_secret_modified'', JBool True)]),
                                 (''value'', JStr ''s'')])])
   \<and> patch_secrets stale_doc [] []
        [([PKey ''a'', PKey ''b'', PKey ''c''], JStr ''v''), ([PKey ''a''], JStr ''s'')]
   = Inr (JDict [(''a'', JDict [(''x'', JStr ''1''),
                                 (''attrs'', JDict [(''is_secret_modified'', JBool False)])])])
   \<and> patch_secrets stale_doc [] [([PKey ''a'', PKey ''b'', PKey ''c''], JStr ''v'', JNull)] []
   = Inr stale_doc"
proof -
  have h1: "json_at stale_doc [PKey ''a''] = Some (JDict [(''x'', JStr ''1'')])"
    by (simp add: stale_doc_def pelem_json_def)
  have h2: "lacks_key [(''x'', JStr ''1'')] (PKey ''b'')"
    by (simp add: lacks_key_def)
  have r: "patch_secrets stale_doc [] [] [] = Inr stale_doc"
    by (simp add: patch_defs stale_doc_def)
  have sv: "patch_secrets stale_doc [] [([PKey ''a''], JStr ''s'', JNull)] []
     = Inr (JDict [(''a'', JDict [(''x'', JStr ''1''),
                                 (''attrs'', JDict [(''is_secret_modified'', JBool True)]),
                                 (''value'', JStr ''s'')])])"
    by (simp add: patch_defs stale_doc_def)
  have ex: "patch_secrets stale_doc [] [] [([PKey ''a''], JStr ''s'')]
     = Inr (JDict [(''a'', JDict [(''x'', JStr ''1''),
                                 (''attrs'', JDict [(''is_secret_modified'', JBool False)])])])"
    by (simp add: patch_defs stale_doc_def)
  from patch_secrets_skips_stale_path [OF h1 h2, of stale_doc "[]" "[]" "[]" "[PKey ''c'']"
      "JStr ''v''" JNull "[([PKey ''a''], JStr ''s'', JNull)]" "[]" "[]"
      "[([PKey ''a''], JStr ''s'')]"]
  show ?thesis using r sv ex by simp
qed

text \<open>
  C8 as stated fails when an earlier entry makes the path live. In the document
  \<^verbatim>\<open>{"a": {"x": "1"}}\<close> the path a, value, k gets to the dict under a, which lacks
  \<^verbatim>\<open>value\<close>. The entry with path a, processed first, writes \<^verbatim>\<open>value\<close> there, so the
  walk of the second entry goes on into the string: \<^verbatim>\<open>TypeError\<close>.
\<close>

theorem patch_secrets_stale_path_counterexample:
  "json_at stale_doc [PKey ''a''] = Some (JDict [(''x'', JStr ''1'')])
   \<and> lacks_key [(''x'', JStr ''1'')] (PKey ''value'')
   \<and> patch_secrets stale_doc []
        [([PKey ''a''], JStr ''s'', JNull),
         ([PKey ''a'', PKey ''value'', PKey ''k''], JStr ''t'', JNull)] []
      = Inl TypeError"
  by (simp add: patch_defs stale_doc_def lacks_key_def)
section \<open>update_vm_image_config\<close>

lemma json_at3:
  "json_at v [p1, p2, p3] = Some x \<longleftrightarrow>
     (\<exists>a b. py_getitem v (pelem_json p1) = Inr a \<and> py_getitem a (pelem_json p2) = Inr b
        \<and> py_getitem b (pelem_json p3) = Inr x)"
  by (auto split: sum.splits)

lemma json_at2:
  "json_at v [p1, p2] = Some x \<longleftrightarrow>
     (\<exists>a. py_getitem v (pelem_json p1) = Inr a \<and> py_getitem a (pelem_json p2) = Inr x)"
  by (auto split: sum.splits)

lemma py_index_in_range:
  "1 \<le> i \<Longrightarrow> i \<le> int n \<Longrightarrow> py_index n (i - 1) = Some (nat (i - 1))"
  by (simp add: py_index_def)

lemma update_disk_single:
  assumes "1 \<le> disk_ind"
    and "disk_ind \<le> int (length disks) \<Longrightarrow> disks ! nat (disk_ind - 1) = JDict d"
    and "image_type_of img = Some vt"
    and "disk_ind \<le> int (length disks) \<Longrightarrow> map_of d ''data_source_reference'' \<noteq> None
           \<Longrightarrow> disk_image_type image_types (JDict d) = Some dt"
  shows "update_disk image_types (JList disks) (disk_ind, img) =
      (if disk_ind > int (length disks) \<or> map_of d ''data_source_reference'' = None then Inl ValueError
       else if \<not> py_eq vt dt then Inl TypeError
       else Inr (JList (disks[nat (disk_ind - 1) :=
                   JDict (AList.update ''data_source_reference'' (img_ref img) d)])))"
proof (cases "disk_ind > int (length disks)")
  case True
  then show ?thesis by (simp add: update_disk_def)
next
  case False
  then have le: "disk_ind \<le> int (length disks)" by simp
  have ix: "py_index (length disks) (disk_ind - 1) = Some (nat (disk_ind - 1))"
    using assms(1) le by (rule py_index_in_range)
  have dk: "disks ! nat (disk_ind - 1) = JDict d" using assms(2) le by simp
  show ?thesis
  proof (cases "map_of d ''data_source_reference'' = None")
    case True
    then show ?thesis using False ix dk by (simp add: update_disk_def)
  next
    case present: False
    from assms(3) obtain o1 r1 where o1: "py_getitem (img_pkg img) (JStr ''options'') = Inr o1"
      and r1: "py_getitem o1 (JStr ''resources'') = Inr r1"
      and v1: "py_getitem r1 (JStr ''image_type'') = Inr vt"
      unfolding image_type_of_def json_at3 by (auto simp: pelem_json_def)
    from assms(4) [OF le present] obtain dp t where dp: "py_getitem (JDict d) (JStr ''device_properties'') = Inr dp"
      and t: "py_getitem dp (JStr ''device_type'') = Inr t"
      and it: "py_getitem image_types t = Inr dt"
      unfolding disk_image_type_def
      by (auto simp: json_at2 pelem_json_def simp del: json_at.simps py_getitem.simps
          split: option.splits sum.splits)
    have gl: "py_getitem (JList disks) (JInt (disk_ind - 1)) = Inr (JDict d)"
      using ix dk by simp
    have pin: "py_in (JStr ''data_source_reference'') (JDict d) = Inr True"
      using present by simp
    show ?thesis
      using False present ix gl pin o1 r1 v1 dp t it
      by (simp add: update_disk_def put_item_def del: py_getitem.simps py_in.simps)
  qed
qed


lemma store_back_dict:
  "map_of kvs k = Some x \<Longrightarrow> store_back (JDict kvs) k v = JDict (AList.update k v kvs)"
  by (simp add: store_back_def)

text \<open>
  C10, as amended. Take a spec whose \<^verbatim>\<open>resources\<close> hold a list \<^verbatim>\<open>disk_list\<close>, and
  the first entry of \<^verbatim>\<open>disk_packages\<close>, with a disk position of at least 1, a package
  that has an image type and, where the position addresses a disk, a disk that is a dict
  and whose device type has an image type. Then \<^verbatim>\<open>update_vm_image_config\<close> raises
  ValueError exactly when the position exceeds the length of the list or the disk lacks
  \<^verbatim>\<open>data_source_reference\<close>; otherwise it raises TypeError exactly when the two image
  types differ; otherwise it replaces the \<^verbatim>\<open>data_source_reference\<close> of that disk by the
  compiled reference, leaves every other disk as it is, and goes on with the entries
  that follow. With no entry left it returns the spec.
\<close>

theorem update_vm_image_config_entry:
  assumes "map_of spec ''resources'' = Some (JDict res)"
    and "map_of res ''disk_list'' = Some (JList disks)"
    and "1 \<le> disk_ind"
    and "disk_ind \<le> int (length disks) \<Longrightarrow> disks ! nat (disk_ind - 1) = JDict d"
    and "image_type_of img = Some vt"
    and "disk_ind \<le> int (length disks) \<Longrightarrow> map_of d ''data_source_reference'' \<noteq> None
           \<Longrightarrow> disk_image_type image_types (JDict d) = Some dt"
  shows "update_vm_image_config image_types (JDict spec) ((disk_ind, img) # rest) =
      (if disk_ind > int (length disks) \<or> map_of d ''data_source_reference'' = None then Inl ValueError
       else if \<not> py_eq vt dt then Inl TypeError
       else update_vm_image_config image_types
              (JDict (AList.update ''resources''
                 (JDict (AList.update ''disk_list''
                    (JList (disks[nat (disk_ind - 1) :=
                       JDict (AList.update ''data_source_reference'' (img_ref img) d)])) res)) spec))
              rest)
    \<and> update_vm_image_config image_types (JDict spec) [] = Inr (JDict spec)"
proof -
  have one: "update_disk image_types (JList disks) (disk_ind, img) =
      (if disk_ind > int (length disks) \<or> map_of d ''data_source_reference'' = None then Inl ValueError
       else if \<not> py_eq vt dt then Inl TypeError
       else Inr (JList (disks[nat (disk_ind - 1) :=
                   JDict (AList.update ''data_source_reference'' (img_ref img) d)])))"
    by (rule update_disk_single [OF assms(3-6)])
  have g1: "py_getitem (JDict spec) (JStr ''resources'') = Inr (JDict res)"
    using assms(1) by simp
  have g2: "py_get (JDict res) ''disk_list'' (JList []) = Inr (JList disks)"
    using assms(2) by simp
  have nil: "update_vm_image_config image_types (JDict spec) [] = Inr (JDict spec)"
    using assms(1,2) g1 g2
    by (simp add: update_vm_image_config_def store_back_dict AList.update_triv
        del: py_getitem.simps py_get.simps)
  have step: "update_vm_image_config image_types (JDict spec) ((disk_ind, img) # rest) =
      ebind (update_disk image_types (JList disks) (disk_ind, img)) (\<lambda>dl.
        update_vm_image_config image_types
          (JDict (AList.update ''resources'' (JDict (AList.update ''disk_list'' dl res)) spec)) rest)"
  proof (cases "update_disk image_types (JList disks) (disk_ind, img)")
    case (Inl e)
    then show ?thesis using g1 g2
      by (simp add: update_vm_image_config_def del: py_getitem.simps py_get.simps)
  next
    case (Inr dl)
    have h1: "py_getitem (JDict (AList.update ''resources'' (JDict (AList.update ''disk_list'' dl res)) spec))
                (JStr ''resources'') = Inr (JDict (AList.update ''disk_list'' dl res))"
      by (simp add: update_conv')
    have h2: "py_get (JDict (AList.update ''disk_list'' dl res)) ''disk_list'' (JList []) = Inr dl"
      by (simp add: update_conv')
    show ?thesis using g1 g2 h1 h2 Inr assms(1,2)
      by (simp add: update_vm_image_config_def store_back_def update_conv'
          del: py_getitem.simps py_get.simps)
  qed
  show ?thesis using one step nil by simp
qed


text \<open>Instances: a replaced reference, a position past the list, a mismatch of image types.\<close>

theorem update_vm_image_config_entry_witness:
  "update_vm_image_config ahv_image_types spec_a [(1, img_disk)] =
     Inr (JDict [(''resources'', JDict [(''disk_list'', JList [
        JDict [(''device_properties'', JDict [(''device_type'', JStr ''DISK'')]),
               (''data_source_reference'',
                JDict [(''kind'', JStr ''app_package''), (''name'', JStr ''centos'')])]])])])
   \<and> update_vm_image_config ahv_image_types spec_a [(2, img_disk)] = Inl ValueError
   \<and> update_vm_image_config ahv_image_types spec_a [(1, img_iso)] = Inl TypeError"
proof -
  let ?spec = "[(''resources'', JDict [(''disk_list'', JList [disk_a])])]"
  let ?res = "[(''disk_list'', JList [disk_a])]"
  let ?d = "[(''device_properties'', JDict [(''device_type'', JStr ''DISK'')]),
             (''data_source_reference'', JDict [(''kind'', JStr ''image'')])]"
  have s: "spec_a = JDict ?spec" by (simp add: spec_a_def)
  have a1: "map_of ?spec ''resources'' = Some (JDict ?res)" by simp
  have a2: "map_of ?res ''disk_list'' = Some (JList [disk_a])" by simp
  have a4: "i \<le> int (length [disk_a]) \<Longrightarrow> [disk_a] ! nat (i - 1) = JDict ?d" if "1 \<le> i" for i :: int
    using that by (simp add: disk_a_def)
  have a5: "image_type_of img_disk = Some (JStr ''DISK_IMAGE'')"
    by (simp add: image_type_of_def img_disk_def pelem_json_def)
  have a5': "image_type_of img_iso = Some (JStr ''ISO_IMAGE'')"
    by (simp add: image_type_of_def img_iso_def pelem_json_def)
  have a6: "disk_image_type ahv_image_types (JDict ?d) = Some (JStr ''DISK_IMAGE'')"
    by (simp add: disk_image_type_def ahv_image_types_def pelem_json_def)
  have t1: "update_vm_image_config ahv_image_types spec_a [(1, img_disk)] =
     Inr (JDict [(''resources'', JDict [(''disk_list'', JList [
        JDict [(''device_properties'', JDict [(''device_type'', JStr ''DISK'')]),
               (''data_source_reference'',
                JDict [(''kind'', JStr ''app_package''), (''name'', JStr ''centos'')])]])])])"
    using update_vm_image_config_entry [OF a1 a2 _ a4 a5 a6, of 1 "[]"]
          update_vm_image_config_entry [OF a1 a2 _ a4 a5 a6, of 1 "[]"]
    by (simp add: s img_disk_def update_vm_image_config_def store_back_def disk_a_def)
  have t2: "update_vm_image_config ahv_image_types spec_a [(2, img_disk)] = Inl ValueError"
    using update_vm_image_config_entry [OF a1 a2 _ a4 a5 a6, of 2 "[]"] by (simp add: s)
  have t3: "update_vm_image_config ahv_image_types spec_a [(1, img_iso)] = Inl TypeError"
    using update_vm_image_config_entry [OF a1 a2 _ a4 a5' a6, of 1 "[]"] by (simp add: s)
  show ?thesis using t1 t2 t3 by simp
qed

text \<open>
  C10 as stated fails with two entries: position 5 exceeds the length of the list, which
  the claim answers with ValueError, and the entry before it has a mismatch of image
  types, so TypeError is what the call raises.
\<close>

theorem update_vm_image_config_counterexample:
  "update_vm_image_config ahv_image_types spec_a [(1, img_iso), (5, img_disk)] = Inl TypeError
   \<and> update_vm_image_config ahv_image_types spec_a [(1, img_iso), (5, img_disk)] \<noteq> Inl ValueError
   \<and> py_getitem spec_a (JStr ''resources'') = Inr (JDict [(''disk_list'', JList [disk_a])])
   \<and> (5::int) > int (length [disk_a])"
  by (simp add: update_vm_image_config_def spec_a_def disk_a_def img_iso_def img_disk_def
      ahv_image_types_def update_disk_def py_index_def)

section \<open>Default arguments shared between calls\<close>

text \<open>
  With its optional arguments left out, \<^verbatim>\<open>strip_secrets\<close> walks no object list and no
  object, so it appends nothing to the list \<^verbatim>\<open>not_stripped_secrets\<close> that is kept with
  the function, and nothing to \<^verbatim>\<open>secret_variables\<close>.
\<close>

lemma strip_secrets_call_keeps_default:
  assumes "strip_secrets_call default_ns resources secret_map secret_variables
             = Inr (resources', secret_map', secret_variables', default_ns')"
  shows "default_ns' = default_ns \<and> secret_variables' = secret_variables"
  using assms
  by (auto simp: strip_secrets_call_def strip_secrets_def ebind_eq_Inr)

text \<open>
  C6. Two calls \<^verbatim>\<open>strip_vmware_secrets(path_list, obj)\<close> on equal arguments, a fresh empty
  path and a spec with an admin password: the first leaves one entry in the list
  \<^verbatim>\<open>secret_variables\<close> kept with the function, and the second, which starts from that
  list, leaves two. What the second call collects depends on the first.
\<close>

theorem strip_vmware_secrets_defaults_shared:
  "strip_vmware_secrets_call vmware_defaults_at_import [] vm_obj
     = Inr (vm_path, vm_obj_stripped,
            \<lparr>default_secret_variables = [vm_entry], default_not_stripped = []\<rparr>)
   \<and> strip_vmware_secrets_call
        \<lparr>default_secret_variables = [vm_entry], default_not_stripped = []\<rparr> [] vm_obj
     = Inr (vm_path, vm_obj_stripped,
            \<lparr>default_secret_variables = [vm_entry, vm_entry], default_not_stripped = []\<rparr>)"
  by (simp add: strip_vmware_secrets_call_def strip_vmware_secrets_def vmware_defaults_at_import_def
      vm_obj_def vm_path_def vm_entry_def vm_obj_stripped_def strip_admin_password_def
      strip_domain_password_def vmware_context_def str_add_def get_secrets_from_context_def
      is_secret_modified_def store_back_def add_secret_variable_def vmware_attrs_placeholder_def)

section \<open>The debugger in get_provider_spec_string\<close>

text \<open>
  With the debugger continued, the AHV branch gives the string of the claim: the first
  and the third disk come from packages, and the \<^verbatim>\<open>uuid\<close> of a package reference is
  dropped from the spec.
\<close>

lemma get_provider_spec_string_continued:
  "get_provider_spec_string DbgContinue decompile_ok identifier_text ahv_spec ''specs/x.yaml''
      ''AHV_VM'' []
   = Inr (''read_ahv_spec('' @ [CHR 0x27] @ ''specs/x.yaml'' @ [CHR 0x27]
            @ '', disk_packages = {1: centos,3: iso})'',
          JDict [(''resources'', JDict [(''disk_list'', JList [
            JDict [(''data_source_reference'',
                    JDict [(''kind'', JStr ''app_package''), (''name'', JStr ''centos'')])],
            JDict [(''data_source_reference'', JNull)],
            JDict [(''data_source_reference'',
                    JDict [(''kind'', JStr ''app_package''), (''name'', JStr ''iso'')])]])])])"
  by (simp add: get_provider_spec_string_def pdb_set_trace_def decompile_ok_def identifier_text_def
      ahv_spec_def spec_disk_def store_back_def iter_store_def disk_pkg_string_def)

text \<open>
  C7. For the provider type \<^verbatim>\<open>AHV_VM\<close> the function first stops in the debugger
  (\<^verbatim>\<open>pdb.set_trace()\<close>, line 107). When the debugger is quit, or the program has no
  terminal to read a command from, the call raises \<^verbatim>\<open>BdbQuit\<close> whatever the spec is:
  it does not return the string.
\<close>

theorem get_provider_spec_string_debugger_quit:
  "get_provider_spec_string DbgQuit decompile get_valid_identifier spec filename ''AHV_VM'' vm_images
     = Inl BdbQuit"
  by (simp add: get_provider_spec_string_def pdb_set_trace_def)

section \<open>Errors in the command handlers\<close>




lemma after_events_simps [simp]:
  "after_events events (events', ending) = (events @ events', ending)"
  by (simp add: after_events_def)


lemma after_events_Nil [simp]: "after_events [] r = r"
  by (cases r) simp










section \<open>strip_patch_config_tasks: what it leaves and what it returns\<close>

lemma strip_patch_config_result:
  assumes "strip_patch_config i pc m = Inr (pc', m')"
  shows "pc' = drop_runbook pc \<and> m' = sm_update (name_of pc) (runbook_tasks pc) m"
proof (cases pc)
  case (JDict kvs)
  show ?thesis
  proof (cases "map_of kvs ''runbook''")
    case None
    then have "''runbook'' \<notin> fst ` set kvs" by (simp add: map_of_eq_None_iff)
    then have d: "AList.delete ''runbook'' kvs = kvs" by simp
    show ?thesis using assms JDict None d
      by (auto simp: strip_patch_config_def drop_runbook_def name_of_def runbook_tasks_def
          store_back_def sm_set_def ebind_eq_Inr split: option.splits if_splits)
  next
    case (Some rb)
    show ?thesis
    proof (cases rb)
      case (JDict r)
      show ?thesis using assms \<open>pc = JDict kvs\<close> Some JDict
        by (auto simp: strip_patch_config_def drop_runbook_def name_of_def runbook_tasks_def
            store_back_def sm_set_def ebind_eq_Inr delete_update_same update_conv'
            split: option.splits if_splits)
    qed (use assms \<open>pc = JDict kvs\<close> Some in \<open>simp_all add: strip_patch_config_def\<close>)
  qed
qed (use assms in \<open>simp_all add: strip_patch_config_def\<close>)

lemma eloop_strip_patch_config:
  "eloop strip_patch_config i pcs m = Inr (pcs', m') \<Longrightarrow>
     pcs' = map drop_runbook pcs
     \<and> m' = fold (\<lambda>pc. sm_update (name_of pc) (runbook_tasks pc)) pcs m"
proof (induction pcs arbitrary: i m pcs' m')
  case Nil
  then show ?case by simp
next
  case (Cons pc pcs)
  from Cons.prems obtain pc1 m1 ps1 where
    a: "strip_patch_config i pc m = Inr (pc1, m1)" and
    b: "eloop strip_patch_config (Suc i) pcs m1 = Inr (ps1, m')" and
    c: "pcs' = pc1 # ps1"
    by (auto simp: ebind_eq_Inr)
  from strip_patch_config_result [OF a] Cons.IH [OF b] c show ?case by simp
qed


lemma eloop_all_fail:
  assumes "eloop f i xs m = Inr r" and "\<And>j x a. x \<in> set xs \<Longrightarrow> \<exists>e. f j x a = Inl e"
  shows "xs = []"
proof (cases xs)
  case (Cons x xs')
  obtain e where "f i x m = Inl e" using assms(2) [of x i m] Cons by auto
  then show ?thesis using assms(1) Cons by simp
qed simp

lemma py_iter_not_list:
  assumes "py_iter v = Inr xs" and "\<not> (\<exists>ys. v = JList ys)"
  shows "\<forall>x \<in> set xs. \<exists>s. x = JStr s"
  using assms by (cases v) auto

lemma iter_store_not_list: "\<not> (\<exists>ys. v = JList ys) \<Longrightarrow> iter_store v xs = v"
  by (cases v) (simp_all add: iter_store_def)

lemma each_not_list: "\<not> (\<exists>ys. v = JList ys) \<Longrightarrow> each f v = v"
  by (cases v) (simp_all add: each_def)

lemma list_under_not_list:
  "map_of kvs k = Some v \<Longrightarrow> \<not> (\<exists>ys. v = JList ys) \<Longrightarrow> list_under k (JDict kvs) = []"
  by (cases v) (simp_all add: list_under_def)

lemma store_back_same: "map_of kvs k = Some v \<Longrightarrow> store_back (JDict kvs) k v = JDict kvs"
  by (simp add: store_back_def update_triv)

lemma under_same: "map_of kvs k = Some v \<Longrightarrow> f v = v \<Longrightarrow> under k f (JDict kvs) = JDict kvs"
  by (simp add: under_def update_triv)

lemma strip_patch_config_string: "\<exists>e. strip_patch_config j (JStr s) a = Inl e"
  by (simp add: strip_patch_config_def)

lemma strip_profile_string: "\<exists>e. strip_profile j (JStr s) a = Inl e"
  by (simp add: strip_profile_def)

lemma strip_profile_result:
  assumes "strip_profile i profile result = Inr (profile', result')"
  shows "profile' = under ''patch_list'' (each drop_runbook) profile
       \<and> result' = sm_update (name_of profile) (config_tasks profile) result"
proof (cases profile)
  case (JDict kvs)
  from assms JDict obtain patch_list pcs pcs' m where
    pl: "patch_list = (case map_of kvs ''patch_list'' of None \<Rightarrow> JList [] | Some v \<Rightarrow> v)" and
    it: "py_iter patch_list = Inr pcs" and
    lp: "eloop strip_patch_config 0 pcs [] = Inr (pcs', m)" and
    res: "sm_set result (name_of profile) m = Inr result'" and
    pr: "profile' = store_back profile ''patch_list'' (iter_store patch_list pcs')"
    by (auto simp: strip_profile_def ebind_eq_Inr name_of_def)
  have r': "result' = sm_update (name_of profile) m result"
    using res by (auto simp: sm_set_def split: if_splits)
  note L = eloop_strip_patch_config [OF lp]
  show ?thesis
  proof (cases "\<exists>ys. patch_list = JList ys")
    case True
    then obtain ys where ys: "patch_list = JList ys" by blast
    then have pcs: "pcs = ys" using it by simp
    show ?thesis
    proof (cases "map_of kvs ''patch_list''")
      case None
      then have "ys = []" using pl ys by simp
      then show ?thesis using None JDict pr r' L pcs
        by (simp add: under_def store_back_def config_tasks_def list_under_def)
    next
      case (Some v)
      then have "v = JList ys" using pl ys by simp
      then show ?thesis using Some JDict pr r' L pcs ys
        by (simp add: under_def store_back_def config_tasks_def list_under_def each_def iter_store_def)
    qed
  next
    case False
    have strs: "\<forall>x \<in> set pcs. \<exists>t. x = JStr t"
      by (rule py_iter_not_list [OF it False])
    have e: "pcs = []"
    proof (rule eloop_all_fail [OF lp])
      fix j x a
      assume "x \<in> set pcs"
      with strs obtain t where "x = JStr t" by auto
      then show "\<exists>e. strip_patch_config j x a = Inl e"
        using strip_patch_config_string [of j t a] by simp
    qed
    obtain v where v: "map_of kvs ''patch_list'' = Some v" and vp: "v = patch_list"
      using False pl by (cases "map_of kvs ''patch_list''") auto
    have nl: "\<not> (\<exists>ys. v = JList ys)" using False vp by simp
    have p1: "profile' = profile"
      using pr JDict v vp by (simp add: iter_store_not_list [OF False] store_back_same)
    have p2: "under ''patch_list'' (each drop_runbook) profile = profile"
      using JDict v by (simp add: under_same each_not_list [OF nl])
    have p3: "list_under ''patch_list'' profile = []"
      using JDict list_under_not_list [OF v nl] by simp
    have p4: "m = []" using L e by simp
    show ?thesis using p1 p2 p3 p4 r' by (simp add: config_tasks_def)
  qed
qed (use assms in \<open>simp_all add: strip_profile_def\<close>)

lemma eloop_strip_profile:
  "eloop strip_profile i ps result = Inr (ps', result') \<Longrightarrow>
     ps' = map (under ''patch_list'' (each drop_runbook)) ps
     \<and> result' = fold (\<lambda>p. sm_update (name_of p) (config_tasks p)) ps result"
proof (induction ps arbitrary: i result ps' result')
  case Nil
  then show ?case by simp
next
  case (Cons p ps)
  from Cons.prems obtain p1 r1 ps1 where
    a: "strip_profile i p result = Inr (p1, r1)" and
    b: "eloop strip_profile (Suc i) ps r1 = Inr (ps1, result')" and
    c: "ps' = p1 # ps1"
    by (auto simp: ebind_eq_Inr)
  from strip_profile_result [OF a] Cons.IH [OF b] c show ?case by simp
qed

lemma strip_patch_config_tasks_result:
  assumes "strip_patch_config_tasks resources = Inr (resources', result)"
  shows "resources' = under ''app_profile_list'' (each (under ''patch_list'' (each drop_runbook))) resources
       \<and> result = fold (\<lambda>p. sm_update (name_of p) (config_tasks p))
                    (list_under ''app_profile_list'' resources) []"
proof (cases resources)
  case (JDict kvs)
  let ?f = "under ''patch_list'' (each drop_runbook)"
  from assms JDict obtain profiles ps ps' where
    pl: "profiles = (case map_of kvs ''app_profile_list'' of None \<Rightarrow> JList [] | Some v \<Rightarrow> v)" and
    it: "py_iter profiles = Inr ps" and
    lp: "eloop strip_profile 0 ps [] = Inr (ps', result)" and
    pr: "resources' = store_back resources ''app_profile_list'' (iter_store profiles ps')"
    by (auto simp: strip_patch_config_tasks_def ebind_eq_Inr)
  note L = eloop_strip_profile [OF lp]
  show ?thesis
  proof (cases "\<exists>ys. profiles = JList ys")
    case True
    then obtain ys where ys: "profiles = JList ys" by blast
    then have pcs: "ps = ys" using it by simp
    show ?thesis
    proof (cases "map_of kvs ''app_profile_list''")
      case None
      then have "ys = []" using pl ys by simp
      then show ?thesis using None JDict pr L pcs
        by (simp add: under_def store_back_def list_under_def)
    next
      case (Some v)
      then have "v = JList ys" using pl ys by simp
      then show ?thesis using Some JDict pr L pcs ys
        by (simp add: under_def store_back_def list_under_def each_def iter_store_def)
    qed
  next
    case False
    have strs: "\<forall>x \<in> set ps. \<exists>t. x = JStr t"
      by (rule py_iter_not_list [OF it False])
    have e: "ps = []"
    proof (rule eloop_all_fail [OF lp])
      fix j x a
      assume "x \<in> set ps"
      with strs obtain t where "x = JStr t" by auto
      then show "\<exists>e. strip_profile j x a = Inl e"
        using strip_profile_string [of j t a] by simp
    qed
    obtain v where v: "map_of kvs ''app_profile_list'' = Some v" and vp: "v = profiles"
      using False pl by (cases "map_of kvs ''app_profile_list''") auto
    have nl: "\<not> (\<exists>ys. v = JList ys)" using False vp by simp
    have p1: "resources' = resources"
      using pr JDict v vp by (simp add: iter_store_not_list [OF False] store_back_same)
    have p2: "under ''app_profile_list'' (each ?f) resources = resources"
      using JDict v by (simp add: under_same each_not_list [OF nl])
    have p3: "list_under ''app_profile_list'' resources = []"
      using JDict list_under_not_list [OF v nl] by simp
    have p4: "result = []" using L e by simp
    show ?thesis using p1 p2 p3 p4 by simp
  qed
qed (use assms in \<open>simp_all add: strip_patch_config_tasks_def\<close>)


lemma py_eq_JStr: "py_eq a (JStr s) \<longleftrightarrow> a = JStr s"
  by (cases a) auto

lemma sm_lookup_update_str:
  "sm_lookup (sm_update (JStr s) v m) (JStr t) = (if s = t then Some v else sm_lookup m (JStr t))"
  by (induction m) (auto simp: py_eq_JStr)

lemma sm_lookup_fold_other:
  assumes "list_all is_string (map name_of os)" and "JStr n \<notin> set (map name_of os)"
  shows "sm_lookup (fold (\<lambda>ob. sm_update (name_of ob) (g ob)) os m) (JStr n) = sm_lookup m (JStr n)"
  using assms
proof (induction os arbitrary: m)
  case Nil
  then show ?case by simp
next
  case (Cons ob os)
  from Cons.prems obtain t where t: "name_of ob = JStr t" and ne: "t \<noteq> n"
    by (cases "name_of ob") (auto simp: is_string_def)
  have "sm_lookup (fold (\<lambda>ob. sm_update (name_of ob) (g ob)) os (sm_update (JStr t) (g ob) m)) (JStr n)
        = sm_lookup (sm_update (JStr t) (g ob) m) (JStr n)"
    using Cons.IH [of "sm_update (JStr t) (g ob) m"] Cons.prems by simp
  then show ?case using t ne by (simp add: sm_lookup_update_str)
qed

lemma sm_lookup_fold_distinct:
  assumes "distinct_names os" and "x \<in> set os"
  shows "sm_lookup (fold (\<lambda>ob. sm_update (name_of ob) (g ob)) os m) (name_of x) = Some (g x)"
  using assms
proof (induction os arbitrary: m)
  case Nil
  then show ?case by simp
next
  case (Cons ob os)
  from Cons.prems(1) obtain t where t: "name_of ob = JStr t"
    by (cases "name_of ob") (auto simp: distinct_names_def is_string_def)
  have dn: "distinct_names os" and notin: "JStr t \<notin> set (map name_of os)"
    and strs: "list_all is_string (map name_of os)"
    using Cons.prems(1) t by (auto simp: distinct_names_def)
  show ?case
  proof (cases "x \<in> set os")
    case True
    then show ?thesis using Cons.IH [OF dn True] by simp
  next
    case False
    then have "x = ob" using Cons.prems(2) by simp
    then show ?thesis
      using sm_lookup_fold_other [OF strs notin, of g "sm_update (JStr t) (g ob) m"] t
      by (simp add: sm_lookup_update_str)
  qed
qed

lemma list_under_under_each:
  "list_under k (under k (each f) obj) = map f (list_under k obj)"
proof (cases obj)
  case (JDict kvs)
  show ?thesis
  proof (cases "map_of kvs k")
    case None
    then show ?thesis using JDict by (simp add: list_under_def under_def)
  next
    case (Some v)
    then show ?thesis using JDict
      by (cases v) (simp_all add: list_under_def under_def each_def update_conv')
  qed
qed (simp_all add: list_under_def under_def)

lemma drop_runbook_no_key: "\<not> has_key (drop_runbook pc) (PKey ''runbook'')"
  by (cases pc) (simp_all add: drop_runbook_def has_key_def delete_conv')

text \<open>
  C9, as amended. When \<^verbatim>\<open>strip_patch_config_tasks\<close> returns, the document is the one
  it was given with the key \<^verbatim>\<open>runbook\<close> removed from every patch config of every
  profile of \<^verbatim>\<open>app_profile_list\<close>, and nothing else changed; so no patch config has a
  runbook. If the names of the profiles are strings, no two equal, and so are the names
  of the patch configs of each profile, the returned dict maps the name of each profile to
  a dict that maps the name of each of its patch configs to the task list its runbook
  held, the empty list when it had no runbook or the runbook no task list.
\<close>

theorem strip_patch_config_tasks_postcondition:
  assumes "strip_patch_config_tasks resources = Inr (resources', result)"
  shows "resources'
           = under ''app_profile_list'' (each (under ''patch_list'' (each drop_runbook))) resources
       \<and> (\<forall>profile \<in> set (list_under ''app_profile_list'' resources').
            \<forall>patch_config \<in> set (list_under ''patch_list'' profile).
              \<not> has_key patch_config (PKey ''runbook''))
       \<and> (distinct_names (list_under ''app_profile_list'' resources)
            \<and> (\<forall>profile \<in> set (list_under ''app_profile_list'' resources).
                  distinct_names (list_under ''patch_list'' profile))
          \<longrightarrow> (\<forall>profile \<in> set (list_under ''app_profile_list'' resources).
                \<exists>m. sm_lookup result (name_of profile) = Some m
                  \<and> (\<forall>patch_config \<in> set (list_under ''patch_list'' profile).
                        sm_lookup m (name_of patch_config) = Some (runbook_tasks patch_config))))"
proof -
  note R = strip_patch_config_tasks_result [OF assms]
  have a: "resources'
           = under ''app_profile_list'' (each (under ''patch_list'' (each drop_runbook))) resources"
    using R by simp
  have b: "\<not> has_key patch_config (PKey ''runbook'')"
    if "profile \<in> set (list_under ''app_profile_list'' resources')"
      and "patch_config \<in> set (list_under ''patch_list'' profile)" for profile patch_config
  proof -
    from that(1) obtain p where p: "profile = under ''patch_list'' (each drop_runbook) p"
      unfolding a list_under_under_each by auto
    have "patch_config \<in> set (map drop_runbook (list_under ''patch_list'' p))"
      using that(2) by (simp add: p list_under_under_each)
    then obtain pc where "patch_config = drop_runbook pc" by auto
    then show ?thesis by (simp add: drop_runbook_no_key)
  qed
  have c: "\<exists>m. sm_lookup result (name_of profile) = Some m
              \<and> (\<forall>patch_config \<in> set (list_under ''patch_list'' profile).
                    sm_lookup m (name_of patch_config) = Some (runbook_tasks patch_config))"
    if dn: "distinct_names (list_under ''app_profile_list'' resources)"
      and dc: "\<forall>profile \<in> set (list_under ''app_profile_list'' resources).
                  distinct_names (list_under ''patch_list'' profile)"
      and mem: "profile \<in> set (list_under ''app_profile_list'' resources)" for profile
  proof -
    have "sm_lookup result (name_of profile) = Some (config_tasks profile)"
      using R sm_lookup_fold_distinct [OF dn mem, of config_tasks "[]"] by simp
    moreover have "sm_lookup (config_tasks profile) (name_of patch_config) = Some (runbook_tasks patch_config)"
      if "patch_config \<in> set (list_under ''patch_list'' profile)" for patch_config
      unfolding config_tasks_def
      using sm_lookup_fold_distinct [of "list_under ''patch_list'' profile" patch_config runbook_tasks "[]"]
        dc mem that by simp
    ultimately show ?thesis by simp
  qed
  show ?thesis using a b c by blast
qed

text \<open>An instance: one profile, two patch configs, one runbook with one task.\<close>

theorem strip_patch_config_tasks_postcondition_witness:
  "strip_patch_config_tasks profiles_doc
     = Inr (profiles_doc_stripped,
            [(JStr ''P1'', [(JStr ''c1'', JList [JStr ''T1'']), (JStr ''c2'', JList [])])])
   \<and> profiles_doc_stripped
     = under ''app_profile_list'' (each (under ''patch_list'' (each drop_runbook))) profiles_doc"
proof -
  have e: "strip_patch_config_tasks profiles_doc
     = Inr (profiles_doc_stripped,
            [(JStr ''P1'', [(JStr ''c1'', JList [JStr ''T1'']), (JStr ''c2'', JList [])])])"
    by (simp add: strip_patch_config_tasks_def strip_profile_def strip_patch_config_def
        profiles_doc_def profiles_doc_stripped_def store_back_def iter_store_def sm_set_def)
  from strip_patch_config_tasks_postcondition [OF e] e show ?thesis by simp
qed

text \<open>
  C9 as stated fails when two profiles have the same name: the dict of the second
  replaces the dict of the first, and the tasks of the patch config c1 are in no dict
  that is returned.
\<close>

theorem strip_patch_config_tasks_counterexample:
  "strip_patch_config_tasks same_name_doc = Inr (same_name_doc_stripped, [(JStr ''P'', [])])
   \<and> sm_lookup ([] :: smap) (JStr ''c1'') \<noteq> Some (JList [JStr ''T1''])"
  by (simp add: strip_patch_config_tasks_def strip_profile_def strip_patch_config_def
      same_name_doc_def same_name_doc_stripped_def store_back_def iter_store_def sm_set_def)


section \<open>Secret variables: detached when modified\<close>







section \<open>Locations: reading and writing\<close>

lemma apart_Cons: "apart (a # p) (b # q) \<longleftrightarrow> a \<noteq> b \<or> apart p q"
  by (auto simp: apart_def)

lemma apart_Nil [simp]: "\<not> apart [] q" "\<not> apart p []"
  by (simp_all add: apart_def)

lemma walk_apply_field_at:
  assumes "field_at doc p = Some v" and "f v = Inr v'"
  shows "\<exists>doc'. walk_apply f p doc = Inr (Some doc') \<and> field_at doc' p = Some v'
           \<and> (\<forall>q. apart p q \<longrightarrow> field_at doc' q = field_at doc q)"
  using assms
proof (induction p arbitrary: doc)
  case Nil
  then show ?case by simp
next
  case (Cons e p)
  show ?case
  proof (cases e)
    case (PKey k)
    from Cons.prems(1) PKey obtain kvs c where d: "doc = JDict kvs" and c: "map_of kvs k = Some c"
      and at: "field_at c p = Some v"
      by (cases doc) (auto split: option.splits)
    from Cons.IH [OF at Cons.prems(2)] obtain c' where
      w: "walk_apply f p c = Inr (Some c')" and f': "field_at c' p = Some v'"
      and fr: "\<forall>q. apart p q \<longrightarrow> field_at c' q = field_at c q" by blast
    let ?doc' = "JDict (AList.update k c' kvs)"
    have 1: "walk_apply f (e # p) doc = Inr (Some ?doc')"
      using PKey d c w by (simp add: is_dict_def has_key_def pelem_json_def put_item_def store_back_def)
    have 2: "field_at ?doc' (e # p) = Some v'"
      using PKey f' by (simp add: update_conv')
    have 3: "field_at ?doc' q = field_at doc q" if "apart (e # p) q" for q
    proof (cases q)
      case Nil
      then show ?thesis using that by simp
    next
      case (Cons b q')
      show ?thesis
      proof (cases "b = e")
        case True
        then have "apart p q'" using that Cons by (simp add: apart_Cons)
        then show ?thesis using fr True Cons PKey d c by (simp add: update_conv')
      next
        case False
        then show ?thesis using Cons PKey d by (cases b) (auto simp: update_conv')
      qed
    qed
    show ?thesis using 1 2 3 by blast
  next
    case (PIdx i)
    from Cons.prems(1) PIdx obtain xs where d: "doc = JList xs" and r: "0 \<le> i" "i < int (length xs)"
      and at: "field_at (xs ! nat i) p = Some v"
      by (cases doc) (auto split: if_splits)
    from Cons.IH [OF at Cons.prems(2)] obtain c' where
      w: "walk_apply f p (xs ! nat i) = Inr (Some c')" and f': "field_at c' p = Some v'"
      and fr: "\<forall>q. apart p q \<longrightarrow> field_at c' q = field_at (xs ! nat i) q" by blast
    let ?doc' = "JList (xs[nat i := c'])"
    have ix: "py_index (length xs) i = Some (nat i)" using r by (simp add: py_index_def)
    have 1: "walk_apply f (e # p) doc = Inr (Some ?doc')"
      using PIdx d w ix by (simp add: is_dict_def pelem_json_def put_item_def)
    have 2: "field_at ?doc' (e # p) = Some v'"
      using PIdx f' r by simp
    have 3: "field_at ?doc' q = field_at doc q" if "apart (e # p) q" for q
    proof (cases q)
      case Nil
      then show ?thesis using that by simp
    next
      case (Cons b q')
      show ?thesis
      proof (cases "b = e")
        case True
        then have "apart p q'" using that Cons by (simp add: apart_Cons)
        then show ?thesis using fr True Cons PIdx d r by simp
      next
        case False
        then show ?thesis using Cons PIdx d r
          by (cases b) (auto simp: nth_list_update nat_eq_iff)
      qed
    qed
    show ?thesis using 1 2 3 by blast
  qed
qed

lemma attach_secret_dict: "attach_secret secret (JDict d) = Inr (reattached secret d)"
  by (simp add: attach_secret_def reattached_def modified_attrs_def)

lemma reattached_fields:
  "field_at (reattached secret d) [PKey ''value''] = Some secret"
  "field_at (reattached secret d) [PKey ''attrs'', PKey ''is_secret_modified''] = Some (JBool True)"
  by (simp_all add: reattached_def modified_attrs_def update_conv')

lemma strip_cred_result:
  assumes "strip_cred filtered i (JDict cred) secret_map = Inr (cred', secret_map')"
  shows "(is_secret_modified filtered (name_of (JDict cred))
            (case field_at (JDict cred) [PKey ''secret'', PKey ''value''] of Some v \<Rightarrow> v | None \<Rightarrow> JNull)
            = Inr False
          \<and> cred' = JDict cred \<and> secret_map' = secret_map)
       \<or> (\<exists>secret. map_of cred ''secret'' = Some secret
            \<and> cred' = JDict (AList.update ''secret'' cred_placeholder (AList.delete ''secret'' cred))
            \<and> secret_map' = sm_update (name_of (JDict cred)) secret secret_map
            \<and> hashable (name_of (JDict cred)))"
proof -
  from assms obtain name secret v m where
    n: "map_of cred ''name'' = Some name" and s: "map_of cred ''secret'' = Some secret"
    and v: "py_getitem secret (JStr ''value'') = Inr v"
    and m: "is_secret_modified filtered name v = Inr m"
    by (auto simp: strip_cred_def ebind_eq_Inr split: option.splits)
  have fv: "field_at (JDict cred) [PKey ''secret'', PKey ''value''] = Some v"
    using s v by (cases secret) (auto split: option.splits if_splits)
  show ?thesis
  proof (cases m)
    case True
    then show ?thesis using assms n s v m
      by (auto simp: strip_cred_def name_of_def sm_set_def ebind_eq_Inr split: if_splits)
  next
    case False
    then show ?thesis using assms n s v m fv
      by (auto simp: strip_cred_def name_of_def)
  qed
qed

lemma sm_lookup_update_same:
  "hashable k \<Longrightarrow> sm_lookup (sm_update k v m) k = Some v"
  by (induction m) (cases k; auto)+

lemma field_at_key:
  "field_at (JDict kvs) (PKey k # ps) = (case map_of kvs k of None \<Rightarrow> None | Some c \<Rightarrow> field_at c ps)"
  by simp

lemma py_setitem_field:
  "py_setitem obj k v = Inr obj' \<Longrightarrow> field_at obj' [PKey k] = Some v"
  by (cases obj) (auto simp: update_conv')

lemma store_back_field:
  "field_at obj [PKey k] = Some x \<Longrightarrow> field_at (store_back obj k v) (PKey k # ps) = field_at v ps"
  by (cases obj) (auto simp: store_back_def update_conv' split: option.splits)

lemma strip_secret_value_placeholder:
  assumes "strip_secret_value filtered p variable acc = Inr (variable', acc')"
    and "acc_secret_variables acc' \<noteq> acc_secret_variables acc"
  shows "field_at variable' [PKey ''value''] = None
       \<and> field_at variable' [PKey ''attrs''] = Some variable_attrs_placeholder
       \<and> (\<exists>v n. field_at variable [PKey ''value''] = Some v
             \<and> acc' = add_secret_variable p v n acc)"
proof (cases variable)
  case (JDict var)
  from assms JDict obtain m where
    m: "is_secret_modified filtered (name_of variable) (value_of variable) = Inr m"
    by (auto simp: strip_secret_value_def ebind_eq_Inr name_of_def value_of_def)
  have "m" using assms JDict m
    by (cases m) (auto simp: strip_secret_value_def ebind_eq_Inr name_of_def value_of_def
        add_not_stripped_def split: if_splits)
  then show ?thesis using assms(1) JDict m
    by (auto simp: strip_secret_value_def ebind_eq_Inr name_of_def value_of_def
        update_conv' delete_conv' split: option.splits)
qed (use assms in \<open>simp_all add: strip_secret_value_def\<close>)

lemma strip_endpoint_auth_placeholder:
  assumes "strip_endpoint_auth filtered auth secret_map = Inr (auth', secret_map')"
  shows "(auth' = auth \<and> secret_map' = secret_map)
       \<or> (\<exists>name password. field_at auth [PKey ''password''] = Some password
            \<and> field_at auth [PKey ''username''] = Some name
            \<and> secret_map' = sm_update name password secret_map
            \<and> field_at auth' [PKey ''password''] = Some endpoint_placeholder)"
proof (cases auth)
  case (JDict a)
  show ?thesis using assms JDict
    by (auto simp: strip_endpoint_auth_def ebind_eq_Inr sm_set_def update_conv'
        split: if_splits option.splits)
qed (use assms in \<open>simp_all add: strip_endpoint_auth_def\<close>)

lemma py_get_truthy_field:
  "py_get obj k JNull = Inr v \<Longrightarrow> truthy v \<Longrightarrow> field_at obj [PKey k] = Some v"
  by (cases obj) (auto split: option.splits)

lemma py_pop_field:
  "py_pop obj k = Inr (v, obj') \<Longrightarrow> field_at obj [PKey k] = Some v"
  by (cases obj) (auto split: option.splits)

lemma strip_options_auth_placeholder:
  assumes "strip_options_auth p variable acc = Inr (variable', acc')"
  shows "(variable' = variable \<and> acc' = acc)
       \<or> (\<exists>v n. acc' = add_secret_variable (p @ options_password_path) v n acc
            \<and> field_at variable' options_password_path = Some options_password_placeholder
            \<and> (\<forall>k. k \<noteq> ''options'' \<longrightarrow> field_at variable' [PKey k] = field_at variable [PKey k]))"
proof (cases "variable' = variable \<and> acc' = acc")
  case False
  from assms False obtain opts attrs auth ba username pw ba1 v ba2 where
    o: "py_get variable ''options'' JNull = Inr opts" "truthy opts" and
    a: "py_get opts ''attrs'' JNull = Inr attrs" "truthy attrs" and
    au: "py_get attrs ''authentication'' JNull = Inr auth" "truthy auth" and
    b: "py_get auth ''basic_auth'' JNull = Inr ba" and
    u: "py_get ba ''username'' JNull = Inr username" and
    pp: "py_pop ba ''password'' = Inr (pw, ba1)" and
    pv: "py_get pw ''value'' JNull = Inr v" and
    st: "py_setitem ba1 ''password'' options_password_placeholder = Inr ba2" and
    r: "variable' = store_back variable ''options'' (store_back opts ''attrs''
          (store_back attrs ''authentication'' (store_back auth ''basic_auth'' ba2)))" and
    ac: "acc' = add_secret_variable (p @ options_password_path) v username acc"
    unfolding strip_options_auth_def options_password_path_def
    by (auto simp: ebind_eq_Inr split: if_splits)
  have fb: "field_at auth [PKey ''basic_auth''] = Some ba"
    using b pp by (cases auth; cases ba) (auto split: option.splits)
  note f1 = py_get_truthy_field [OF o] py_get_truthy_field [OF a] py_get_truthy_field [OF au]
  have "field_at variable' options_password_path = Some options_password_placeholder"
    unfolding r options_password_path_def
    using f1 fb py_setitem_field [OF st] by (simp add: store_back_field del: field_at.simps)
  moreover have "field_at variable' [PKey k] = field_at variable [PKey k]" if "k \<noteq> ''options''" for k
    unfolding r using that by (cases variable) (auto simp: store_back_def update_conv')
  ultimately show ?thesis using ac by blast
qed simp

lemma py_getitem_field:
  "py_getitem obj (JStr k) = Inr v \<Longrightarrow> field_at obj [PKey k] = Some v \<or> (\<exists>xs. obj = JStr xs)"
  by (cases obj) (auto split: option.splits)

lemma py_getitem_dict_field:
  "py_getitem (JDict kvs) (JStr k) = Inr v \<Longrightarrow> map_of kvs k = Some v"
  by (auto split: option.splits)

lemma strip_task_basic_auth_placeholder:
  assumes "strip_task_basic_auth decompiled_secrets p context auth acc = Inr (auth', acc')"
    and "acc_secret_variables acc' \<noteq> acc_secret_variables acc"
  shows "\<exists>v n. acc' = add_secret_variable p v n acc
           \<and> field_at auth [PKey ''basic_auth'', PKey ''password'', PKey ''value''] = Some v
           \<and> field_at auth' [PKey ''basic_auth'', PKey ''password''] = Some task_password_placeholder
           \<and> (\<forall>k. k \<noteq> ''basic_auth'' \<longrightarrow> field_at auth' [PKey k] = field_at auth [PKey k])"
proof -
  from assms obtain ba1 pw1 v pw2 n ba2 where
    b: "py_getitem auth (JStr ''basic_auth'') = Inr ba1" and
    pw: "py_getitem ba1 (JStr ''password'') = Inr pw1" and
    pp: "py_pop pw1 ''value'' = Inr (v, pw2)" and
    st: "py_setitem ba1 ''password'' task_password_placeholder = Inr ba2" and
    r: "auth' = store_back auth ''basic_auth'' ba2" and
    ac: "acc' = add_secret_variable p v n acc"
    unfolding strip_task_basic_auth_def
    by (auto simp: ebind_eq_Inr add_not_stripped_def split: if_splits)
  obtain a where a: "auth = JDict a" and ab: "map_of a ''basic_auth'' = Some ba1"
    using b assms(1) by (cases auth) (auto simp: strip_task_basic_auth_def split: option.splits)
  obtain bb where bb: "ba1 = JDict bb" and bp: "map_of bb ''password'' = Some pw1"
    using pw st by (cases ba1) (auto split: option.splits)
  have pv: "field_at pw1 [PKey ''value''] = Some v" by (rule py_pop_field [OF pp])
  have 1: "field_at auth [PKey ''basic_auth'', PKey ''password'', PKey ''value''] = Some v"
    using a ab bb bp pv by simp
  have 2: "field_at auth' [PKey ''basic_auth'', PKey ''password''] = Some task_password_placeholder"
  proof -
    have "field_at auth [PKey ''basic_auth''] = Some ba1" using a ab by simp
    from store_back_field [OF this, of ba2 "[PKey ''password'']"] py_setitem_field [OF st]
    show ?thesis unfolding r by simp
  qed
  have 3: "field_at auth' [PKey k] = field_at auth [PKey k]" if "k \<noteq> ''basic_auth''" for k
    unfolding r using that a by (auto simp: store_back_def update_conv')
  show ?thesis using ac 1 2 3 by blast
qed

lemma strip_authentication_placeholder:
  assumes "strip_authentication_secret_variables decompiled_secrets path_list obj context acc
             = Inr (obj', acc')"
    and "acc_secret_variables acc' \<noteq> acc_secret_variables acc"
  shows "\<exists>v n. acc' = add_secret_variable (auth_password_path path_list) v n acc
           \<and> field_at obj [PKey ''authentication'', PKey ''password'', PKey ''value''] = Some v
           \<and> field_at obj' [PKey ''authentication'', PKey ''password'']
               = Some auth_password_placeholder
           \<and> (\<forall>k. k \<noteq> ''authentication'' \<longrightarrow> field_at obj' [PKey k] = field_at obj [PKey k])"
proof -
  from assms obtain auth pw1 v pw2 n auth' where
    g: "py_get obj ''authentication'' (JDict []) = Inr auth" and
    pw: "py_getitem auth (JStr ''password'') = Inr pw1" and
    pp: "py_pop pw1 ''value'' = Inr (v, pw2)" and
    st: "py_setitem auth ''password'' auth_password_placeholder = Inr auth'" and
    r: "obj' = store_back obj ''authentication'' auth'" and
    ac: "acc' = add_secret_variable (auth_password_path path_list) v n acc"
    unfolding strip_authentication_secret_variables_def
    by (auto simp: ebind_eq_Inr add_not_stripped_def split: if_splits)
  obtain a where a: "auth = JDict a" and ap: "map_of a ''password'' = Some pw1"
    using pw st by (cases auth) (auto split: option.splits)
  obtain ob where ob: "obj = JDict ob" and oa: "map_of ob ''authentication'' = Some auth"
    using g a ap by (cases obj) (auto split: option.splits)
  have pv: "field_at pw1 [PKey ''value''] = Some v" by (rule py_pop_field [OF pp])
  have 1: "field_at obj [PKey ''authentication'', PKey ''password'', PKey ''value''] = Some v"
    using ob oa a ap pv by simp
  have 2: "field_at obj' [PKey ''authentication'', PKey ''password''] = Some auth_password_placeholder"
  proof -
    have "field_at obj [PKey ''authentication''] = Some auth" using ob oa by simp
    from store_back_field [OF this, of auth' "[PKey ''password'']"] py_setitem_field [OF st]
    show ?thesis unfolding r by simp
  qed
  have 3: "field_at obj' [PKey k] = field_at obj [PKey k]" if "k \<noteq> ''authentication''" for k
    unfolding r using that ob by (auto simp: store_back_def update_conv')
  show ?thesis using ac 1 2 3 by blast
qed

end
